theory Spec2Isabelle
  imports Complex_Main
begin

section \<open>Python values\<close>

text \<open>
  The service handles decoded JSON: what \<^verbatim>\<open>json.loads\<close> returns. A Python
  \<^verbatim>\<open>float\<close> is an IEEE double: a finite one is a rational number, kept here with its
  exact value (Python compares an \<^verbatim>\<open>int\<close> with a \<^verbatim>\<open>float\<close> exactly), and
  \<^verbatim>\<open>json.loads\<close> also reads \<^verbatim>\<open>Infinity\<close>, \<^verbatim>\<open>-Infinity\<close> and \<^verbatim>\<open>NaN\<close>.
  A \<^verbatim>\<open>dict\<close> keeps its insertion order: it is an association list, looked up with
  \<^const>\<open>map_of\<close>.
\<close>

datatype pyfloat = Finite rat | PosInf | NegInf | NaN

datatype pyval =
    PNone
  | PBool bool
  | PInt int
  | PFloat pyfloat
  | PStr string
  | PList "pyval list"
  | PDict "(string \<times> pyval) list"

type_synonym pydict = "(string \<times> pyval) list"

datatype py_error =
    AttributeError
  | TypeError
  | KeyError
  | OSError
  | UnicodeDecodeError
  | RuntimeError string
  | TimeoutExpired
  | JSONDecodeError string
  | HTTPError string
  | URLError string
  | TimeoutError string

text \<open>\<^verbatim>\<open>d.get(k)\<close>, \<^verbatim>\<open>d.get(k, default)\<close> and \<^verbatim>\<open>k in d\<close> on a dict.\<close>

definition dict_get :: "pydict \<Rightarrow> string \<Rightarrow> pyval" where
  "dict_get d k = (case map_of d k of None \<Rightarrow> PNone | Some v \<Rightarrow> v)"

definition dict_get_default :: "pydict \<Rightarrow> string \<Rightarrow> pyval \<Rightarrow> pyval" where
  "dict_get_default d k dflt = (case map_of d k of None \<Rightarrow> dflt | Some v \<Rightarrow> v)"

definition dict_has :: "pydict \<Rightarrow> string \<Rightarrow> bool" where
  "dict_has d k = (case map_of d k of None \<Rightarrow> False | Some v \<Rightarrow> True)"

text \<open>
  \<^verbatim>\<open>isinstance(v, int)\<close> and \<^verbatim>\<open>isinstance(v, (int, float))\<close>: \<^verbatim>\<open>bool\<close> is a
  subclass of \<^verbatim>\<open>int\<close>, with \<^verbatim>\<open>True == 1\<close> and \<^verbatim>\<open>False == 0\<close>.
\<close>

fun isinstance_int :: "pyval \<Rightarrow> bool" where
  "isinstance_int (PInt i) = True"
| "isinstance_int (PBool b) = True"
| "isinstance_int v = False"

fun isinstance_int_float :: "pyval \<Rightarrow> bool" where
  "isinstance_int_float (PInt i) = True"
| "isinstance_int_float (PBool b) = True"
| "isinstance_int_float (PFloat f) = True"
| "isinstance_int_float v = False"

text \<open>The integer an \<^verbatim>\<open>int\<close> instance is; only read behind \<^const>\<open>isinstance_int\<close>.\<close>

fun int_value :: "pyval \<Rightarrow> int" where
  "int_value (PInt i) = i"
| "int_value (PBool b) = (if b then 1 else 0)"
| "int_value v = 0"

text \<open>
  \<^verbatim>\<open>lo <= v\<close> and \<^verbatim>\<open>v <= hi\<close> for an integer literal and a number \<open>v\<close>. Every
  comparison with \<^verbatim>\<open>nan\<close> is false.
\<close>

fun int_le_val :: "int \<Rightarrow> pyval \<Rightarrow> bool" where
  "int_le_val lo (PInt i) = (lo \<le> i)"
| "int_le_val lo (PBool b) = (lo \<le> (if b then 1 else 0))"
| "int_le_val lo (PFloat (Finite r)) = (of_int lo \<le> r)"
| "int_le_val lo (PFloat PosInf) = True"
| "int_le_val lo (PFloat NegInf) = False"
| "int_le_val lo (PFloat NaN) = False"
| "int_le_val lo v = False"

fun val_le_int :: "pyval \<Rightarrow> int \<Rightarrow> bool" where
  "val_le_int (PInt i) hi = (i \<le> hi)"
| "val_le_int (PBool b) hi = ((if b then 1 else 0) \<le> hi)"
| "val_le_int (PFloat (Finite r)) hi = (r \<le> of_int hi)"
| "val_le_int (PFloat PosInf) hi = False"
| "val_le_int (PFloat NegInf) hi = True"
| "val_le_int (PFloat NaN) hi = False"
| "val_le_int v hi = False"

text \<open>\<^verbatim>\<open>str(i)\<close> of an integer, as the f-strings print an index.\<close>

fun str_nat :: "nat \<Rightarrow> string" where
  "str_nat n =
     (if n < 10 then [char_of (48 + n)]
      else str_nat (n div 10) @ [char_of (48 + n mod 10)])"

declare str_nat.simps [simp del]

definition str_int :: "int \<Rightarrow> string" where
  "str_int i = (if i < 0 then CHR ''-'' # str_nat (nat (- i)) else str_nat (nat i))"

section \<open>Coordinate and payload validation\<close>

text \<open>
  \<^verbatim>\<open>
  def is_coord(value):
      if not isinstance(value, list) or len(value) != 2:
          return False
      if not all(isinstance(item, (int, float)) for item in value):
          return False
      lon, lat = value
      return -180 <= lon <= 180 and -90 <= lat <= 90
  \<close>
\<close>

fun is_coord :: "pyval \<Rightarrow> bool" where
  "is_coord (PList [lon, lat]) =
     (if \<not> (isinstance_int_float lon \<and> isinstance_int_float lat) then False
      else int_le_val (- 180) lon \<and> val_le_int lon 180 \<and>
           int_le_val (- 90) lat \<and> val_le_int lat 90)"
| "is_coord v = False"

text \<open>
  The test both time-window checks make: true when the value is rejected.
  \<^verbatim>\<open>
  not isinstance(tw, list) or len(tw) != 2
  or not all(isinstance(value, int) for value in tw) or tw[0] > tw[1]
  \<close>
\<close>

fun bad_time_window :: "pyval \<Rightarrow> bool" where
  "bad_time_window (PList [a, b]) =
     (if \<not> (isinstance_int a \<and> isinstance_int b) then True
      else int_value a > int_value b)"
| "bad_time_window v = True"

text \<open>The body of the loop over \<^verbatim>\<open>vehicles\<close> (source lines 67 to 88).\<close>

fun validate_vehicle :: "int \<Rightarrow> pyval \<Rightarrow> string list" where
  "validate_vehicle idx (PDict vehicle) =
     (let capacity = dict_get vehicle ''capacity'' in
        (if \<not> isinstance_int capacity \<or> int_value capacity \<le> 0
         then [''`vehicles['' @ str_int idx @ '']`.capacity` must be a positive integer.'']
         else [])
      @ (if dict_has vehicle ''start'' \<and> \<not> is_coord (dict_get vehicle ''start'')
         then [''`vehicles['' @ str_int idx @ '']`.start` must be [lon, lat].'']
         else [])
      @ (if dict_has vehicle ''end'' \<and> \<not> is_coord (dict_get vehicle ''end'')
         then [''`vehicles['' @ str_int idx @ '']`.end` must be [lon, lat].'']
         else [])
      @ (if dict_has vehicle ''time_window''
            \<and> bad_time_window (dict_get vehicle ''time_window'')
         then [''`vehicles['' @ str_int idx
                 @ '']`.time_window` must be [start, end] in epoch seconds.'']
         else []))"
| "validate_vehicle idx v = [''`vehicles['' @ str_int idx @ '']` must be an object.'']"

fun validate_vehicles :: "int \<Rightarrow> pyval list \<Rightarrow> string list" where
  "validate_vehicles idx [] = []"
| "validate_vehicles idx (vehicle # rest) =
     validate_vehicle idx vehicle @ validate_vehicles (idx + 1) rest"

text \<open>
  The inner loop over a job's \<^verbatim>\<open>time_windows\<close>: it reports the first bad entry
  and breaks.
\<close>

fun validate_time_windows :: "int \<Rightarrow> pyval list \<Rightarrow> string list" where
  "validate_time_windows idx [] = []"
| "validate_time_windows idx (tw # rest) =
     (if bad_time_window tw
      then [''`jobs['' @ str_int idx
              @ '']`.time_windows` entries must be [start, end] epoch seconds.'']
      else validate_time_windows idx rest)"

text \<open>The body of the loop over \<^verbatim>\<open>jobs\<close> (source lines 94 to 125).\<close>

fun validate_job :: "int \<Rightarrow> pyval \<Rightarrow> string list" where
  "validate_job idx (PDict job) =
     (let demand = dict_get_default job ''demand'' (PInt 1);
          service = dict_get job ''service''
      in
        (if \<not> is_coord (dict_get job ''location'')
         then [''`jobs['' @ str_int idx @ '']`.location` must be [lon, lat].'']
         else [])
      @ (if \<not> isinstance_int demand \<or> int_value demand \<le> 0
         then [''`jobs['' @ str_int idx @ '']`.demand` must be a positive integer.'']
         else [])
      @ (if service \<noteq> PNone \<and> (\<not> isinstance_int service \<or> int_value service < 0)
         then [''`jobs['' @ str_int idx
                 @ '']`.service` must be a non-negative integer in seconds.'']
         else [])
      @ (if dict_has job ''time_windows''
         then (case dict_get job ''time_windows'' of
                 PList [] \<Rightarrow>
                   [''`jobs['' @ str_int idx
                      @ '']`.time_windows` must be a non-empty array of [start, end].'']
               | PList tws \<Rightarrow> validate_time_windows idx tws
               | v \<Rightarrow>
                   [''`jobs['' @ str_int idx
                      @ '']`.time_windows` must be a non-empty array of [start, end].''])
         else []))"
| "validate_job idx v = [''`jobs['' @ str_int idx @ '']` must be an object.'']"

fun validate_jobs :: "int \<Rightarrow> pyval list \<Rightarrow> string list" where
  "validate_jobs idx [] = []"
| "validate_jobs idx (job # rest) = validate_job idx job @ validate_jobs (idx + 1) rest"

text \<open>
  \<^verbatim>\<open>validate_payload\<close> (source lines 52 to 127): the three blocks append to
  \<^verbatim>\<open>errors\<close> in this order.
\<close>

definition validate_depot :: "pydict \<Rightarrow> string list" where
  "validate_depot payload =
     (case dict_get payload ''depot'' of
        PDict depot \<Rightarrow>
          (if \<not> is_coord (dict_get depot ''location'')
           then [''`depot.location` must be [lon, lat].''] else [])
      | v \<Rightarrow> [''`depot` is required and must be an object.''])"

definition validate_vehicles_field :: "pydict \<Rightarrow> string list" where
  "validate_vehicles_field payload =
     (case dict_get payload ''vehicles'' of
        PList [] \<Rightarrow> [''`vehicles` is required and must be a non-empty array.'']
      | PList vehicles \<Rightarrow> validate_vehicles 1 vehicles
      | v \<Rightarrow> [''`vehicles` is required and must be a non-empty array.''])"

definition validate_jobs_field :: "pydict \<Rightarrow> string list" where
  "validate_jobs_field payload =
     (case dict_get payload ''jobs'' of
        PList [] \<Rightarrow> [''`jobs` is required and must be a non-empty array.'']
      | PList jobs \<Rightarrow> validate_jobs 1 jobs
      | v \<Rightarrow> [''`jobs` is required and must be a non-empty array.''])"

fun validate_payload :: "pyval \<Rightarrow> string list" where
  "validate_payload (PDict payload) =
     validate_depot payload @ validate_vehicles_field payload @ validate_jobs_field payload"
| "validate_payload v = [''Payload must be a JSON object.'']"

section \<open>Exceptions and the operations that raise\<close>

text \<open>
  A result is \<open>Inl e\<close> when the code raises \<open>e\<close> and \<open>Inr v\<close> when it returns \<open>v\<close>;
  \<open>and_then\<close> runs the next statement unless the first one raised.
\<close>

definition and_then :: "py_error + 'a \<Rightarrow> ('a \<Rightarrow> py_error + 'b) \<Rightarrow> py_error + 'b" where
  "and_then m f = (case m of Inl e \<Rightarrow> Inl e | Inr x \<Rightarrow> f x)"

text \<open>\<^verbatim>\<open>obj[k]\<close> with a string key: only a dict that has the key returns.\<close>

fun subscript :: "pyval \<Rightarrow> string \<Rightarrow> py_error + pyval" where
  "subscript (PDict d) k = (case map_of d k of None \<Rightarrow> Inl KeyError | Some v \<Rightarrow> Inr v)"
| "subscript v k = Inl TypeError"

text \<open>\<^verbatim>\<open>obj.get(k, default)\<close>: only a dict has the method.\<close>

fun py_get :: "pyval \<Rightarrow> string \<Rightarrow> pyval \<Rightarrow> py_error + pyval" where
  "py_get (PDict d) k dflt = Inr (dict_get_default d k dflt)"
| "py_get v k dflt = Inl AttributeError"

text \<open>
  What a \<^verbatim>\<open>for\<close> loop iterates over: the elements of a list, the keys of a dict,
  the characters of a string; nothing else among JSON values is iterable.
\<close>

fun py_iter :: "pyval \<Rightarrow> py_error + pyval list" where
  "py_iter (PList xs) = Inr xs"
| "py_iter (PDict d) = Inr (map (\<lambda>kv. PStr (fst kv)) d)"
| "py_iter (PStr s) = Inr (map (\<lambda>c. PStr [c]) s)"
| "py_iter v = Inl TypeError"

text \<open>\<^verbatim>\<open>d[k] = v\<close>: an existing key keeps its place, a new one goes last.\<close>

fun dict_set :: "pydict \<Rightarrow> string \<Rightarrow> pyval \<Rightarrow> pydict" where
  "dict_set [] k v = [(k, v)]"
| "dict_set (kv # d) k v = (if fst kv = k then (k, v) # d else kv # dict_set d k v)"

text \<open>
  \<^verbatim>\<open>str(v)\<close>. A string is returned as it is; for a float, a list and a dict
  \<^verbatim>\<open>str\<close> is Python's \<^verbatim>\<open>repr\<close>, a parameter \<open>repr\<close> of the model.
\<close>

definition py_str :: "(pyval \<Rightarrow> string) \<Rightarrow> pyval \<Rightarrow> string" where
  "py_str repr v =
     (case v of
        PStr s \<Rightarrow> s
      | PNone \<Rightarrow> ''None''
      | PBool b \<Rightarrow> (if b then ''True'' else ''False'')
      | PInt i \<Rightarrow> str_int i
      | other \<Rightarrow> repr other)"

section \<open>Schema translation\<close>

text \<open>
  The body of the loop over \<^verbatim>\<open>payload["vehicles"]\<close> (source lines 136 to 146): the
  external id stored in \<^verbatim>\<open>vehicle_map[idx]\<close> and the solver's vehicle record.
\<close>

definition build_vehicle ::
  "(pyval \<Rightarrow> string) \<Rightarrow> pyval \<Rightarrow> int \<Rightarrow> pyval \<Rightarrow> py_error + (string \<times> pyval)" where
  "build_vehicle repr depot_location idx vehicle =
     and_then (py_get vehicle ''id'' (PStr (''vehicle-'' @ str_int idx))) (\<lambda>ident.
     and_then (subscript vehicle ''capacity'') (\<lambda>capacity.
     and_then (py_get vehicle ''start'' depot_location) (\<lambda>start.
     and_then (py_get vehicle ''end'' depot_location) (\<lambda>finish.
     and_then (py_get vehicle ''time_window'' PNone) (\<lambda>tw.
       Inr (py_str repr ident,
            PDict ([(''id'', PInt idx), (''capacity'', PList [capacity]),
                    (''start'', start), (''end'', finish)]
                   @ (if tw \<noteq> PNone then [(''time_window'', tw)] else []))))))))"

fun build_vehicles ::
  "(pyval \<Rightarrow> string) \<Rightarrow> pyval \<Rightarrow> int \<Rightarrow> pyval list \<Rightarrow> pyval list \<Rightarrow> (int \<rightharpoonup> string)
     \<Rightarrow> py_error + (pyval list \<times> (int \<rightharpoonup> string))" where
  "build_vehicles repr depot_location idx [] vroom_vehicles vehicle_map =
     Inr (vroom_vehicles, vehicle_map)"
| "build_vehicles repr depot_location idx (vehicle # rest) vroom_vehicles vehicle_map =
     (case build_vehicle repr depot_location idx vehicle of
        Inl e \<Rightarrow> Inl e
      | Inr (ext, entry) \<Rightarrow>
          build_vehicles repr depot_location (idx + 1) rest
            (vroom_vehicles @ [entry]) (vehicle_map(idx \<mapsto> ext)))"

text \<open>The body of the loop over \<^verbatim>\<open>payload["jobs"]\<close> (source lines 151 to 162).\<close>

definition build_job :: "(pyval \<Rightarrow> string) \<Rightarrow> int \<Rightarrow> pyval \<Rightarrow> py_error + (string \<times> pyval)" where
  "build_job repr idx job =
     and_then (py_get job ''id'' (PStr (''job-'' @ str_int idx))) (\<lambda>ident.
     and_then (py_get job ''demand'' (PInt 1)) (\<lambda>demand.
     and_then (subscript job ''location'') (\<lambda>location.
     and_then (py_get job ''service'' (PInt 300)) (\<lambda>service.
     and_then (py_get job ''time_windows'' PNone) (\<lambda>tws.
       Inr (py_str repr ident,
            PDict ([(''id'', PInt idx), (''location'', location),
                    (''service'', service), (''delivery'', PList [demand])]
                   @ (if tws \<noteq> PNone then [(''time_windows'', tws)] else []))))))))"

fun build_jobs ::
  "(pyval \<Rightarrow> string) \<Rightarrow> int \<Rightarrow> pyval list \<Rightarrow> pyval list \<Rightarrow> (int \<rightharpoonup> string)
     \<Rightarrow> py_error + (pyval list \<times> (int \<rightharpoonup> string))" where
  "build_jobs repr idx [] vroom_jobs job_map = Inr (vroom_jobs, job_map)"
| "build_jobs repr idx (job # rest) vroom_jobs job_map =
     (case build_job repr idx job of
        Inl e \<Rightarrow> Inl e
      | Inr (ext, entry) \<Rightarrow>
          build_jobs repr (idx + 1) rest (vroom_jobs @ [entry]) (job_map(idx \<mapsto> ext)))"

text \<open>\<^verbatim>\<open>build_vroom_request\<close> (source lines 130 to 164).\<close>

definition build_vroom_request ::
  "(pyval \<Rightarrow> string) \<Rightarrow> pyval
     \<Rightarrow> py_error + (pyval \<times> (int \<rightharpoonup> string) \<times> (int \<rightharpoonup> string))" where
  "build_vroom_request repr payload =
     and_then (subscript payload ''depot'') (\<lambda>depot.
     and_then (subscript depot ''location'') (\<lambda>depot_location.
     and_then (subscript payload ''vehicles'') (\<lambda>vehicles.
     and_then (py_iter vehicles) (\<lambda>vs.
     and_then (build_vehicles repr depot_location 1 vs [] Map.empty) (\<lambda>(vroom_vehicles, vehicle_map).
     and_then (subscript payload ''jobs'') (\<lambda>jobs.
     and_then (py_iter jobs) (\<lambda>js.
     and_then (build_jobs repr 1 js [] Map.empty) (\<lambda>(vroom_jobs, job_map).
       Inr (PDict [(''vehicles'', PList vroom_vehicles), (''jobs'', PList vroom_jobs)],
            vehicle_map, job_map)))))))))"

section \<open>Reconciliation\<close>

text \<open>
  \<^verbatim>\<open>key in vehicle_map\<close> for a map keyed by integers: the integer a hashable
  value is equal to, if any (\<^verbatim>\<open>True == 1\<close>, \<^verbatim>\<open>2.0 == 2\<close>). Hashing a list or a dict
  raises \<^verbatim>\<open>TypeError\<close>.
\<close>

fun int_key :: "pyval \<Rightarrow> py_error + int option" where
  "int_key (PInt i) = Inr (Some i)"
| "int_key (PBool b) = Inr (Some (if b then 1 else 0))"
| "int_key (PFloat (Finite r)) = Inr (if of_int \<lfloor>r\<rfloor> = r then Some \<lfloor>r\<rfloor> else None)"
| "int_key (PFloat f) = Inr None"
| "int_key PNone = Inr None"
| "int_key (PStr s) = Inr None"
| "int_key (PList xs) = Inl TypeError"
| "int_key (PDict d) = Inl TypeError"

text \<open>
  The pattern the reconciler applies three times, on an entry \<open>d\<close>:
  \<^verbatim>\<open>
  internal = d.get(src)
  if internal in id_map:
      d[dst] = id_map[internal]
  \<close>
\<close>

definition annotate :: "string \<Rightarrow> string \<Rightarrow> (int \<rightharpoonup> string) \<Rightarrow> pydict \<Rightarrow> py_error + pydict" where
  "annotate src dst id_map d =
     (case int_key (dict_get d src) of
        Inl e \<Rightarrow> Inl e
      | Inr None \<Rightarrow> Inr d
      | Inr (Some i) \<Rightarrow>
          (case id_map i of
             None \<Rightarrow> Inr d
           | Some ext \<Rightarrow> Inr (dict_set d dst (PStr ext))))"

text \<open>A loop body run on each element in turn, stopping at the first exception.\<close>

fun for_each :: "('a \<Rightarrow> py_error + 'b) \<Rightarrow> 'a list \<Rightarrow> py_error + 'b list" where
  "for_each body [] = Inr []"
| "for_each body (x # xs) =
     (case body x of
        Inl e \<Rightarrow> Inl e
      | Inr y \<Rightarrow> (case for_each body xs of Inl e \<Rightarrow> Inl e | Inr ys \<Rightarrow> Inr (y # ys)))"

text \<open>
  \<^verbatim>\<open>for x in d.get(k, []): body(x)\<close>, where the body mutates \<open>x\<close>. The elements of
  a list are the objects the list holds, so the list under \<open>k\<close> holds the mutated ones
  afterwards; the keys of a dict and the characters of a string are not.
\<close>

definition for_each_in ::
  "pydict \<Rightarrow> string \<Rightarrow> (pyval \<Rightarrow> py_error + pyval) \<Rightarrow> py_error + pydict" where
  "for_each_in d k body =
     (case map_of d k of
        None \<Rightarrow> Inr d
      | Some c \<Rightarrow>
          (case py_iter c of
             Inl e \<Rightarrow> Inl e
           | Inr xs \<Rightarrow>
               (case for_each body xs of
                  Inl e \<Rightarrow> Inl e
                | Inr ys \<Rightarrow> Inr (case c of PList old \<Rightarrow> dict_set d k (PList ys) | other \<Rightarrow> d))))"

definition annotate_step :: "(int \<rightharpoonup> string) \<Rightarrow> pyval \<Rightarrow> py_error + pyval" where
  "annotate_step job_map step =
     (case step of
        PDict s \<Rightarrow> and_then (annotate ''job'' ''job_external_id'' job_map s) (\<lambda>s'. Inr (PDict s'))
      | other \<Rightarrow> Inl AttributeError)"

definition annotate_route ::
  "(int \<rightharpoonup> string) \<Rightarrow> (int \<rightharpoonup> string) \<Rightarrow> pyval \<Rightarrow> py_error + pyval" where
  "annotate_route vehicle_map job_map route =
     (case route of
        PDict r \<Rightarrow>
          and_then (annotate ''vehicle'' ''vehicle_external_id'' vehicle_map r) (\<lambda>r1.
          and_then (for_each_in r1 ''steps'' (annotate_step job_map)) (\<lambda>r2.
            Inr (PDict r2)))
      | other \<Rightarrow> Inl AttributeError)"

definition annotate_unassigned :: "(int \<rightharpoonup> string) \<Rightarrow> pyval \<Rightarrow> py_error + pyval" where
  "annotate_unassigned job_map unassigned =
     (case unassigned of
        PDict u \<Rightarrow> and_then (annotate ''id'' ''job_external_id'' job_map u) (\<lambda>u'. Inr (PDict u'))
      | other \<Rightarrow> Inl AttributeError)"

text \<open>\<^verbatim>\<open>add_external_ids\<close> (source lines 209 to 222).\<close>

definition add_external_ids ::
  "pyval \<Rightarrow> (int \<rightharpoonup> string) \<Rightarrow> (int \<rightharpoonup> string) \<Rightarrow> py_error + pyval" where
  "add_external_ids solution vehicle_map job_map =
     (case solution of
        PDict s \<Rightarrow>
          and_then (for_each_in s ''routes'' (annotate_route vehicle_map job_map)) (\<lambda>s1.
          and_then (for_each_in s1 ''unassigned'' (annotate_unassigned job_map)) (\<lambda>s2.
            Inr (PDict s2)))
      | other \<Rightarrow> Inl AttributeError)"

section \<open>The solver process\<close>

text \<open>
  The configuration is read from the process environment at start-up. What the outside
  world contributes to a request is a parameter of the model: Python's \<^verbatim>\<open>repr\<close> and
  JSON codec, the name \<^verbatim>\<open>NamedTemporaryFile\<close> picks, and what
  \<^verbatim>\<open>subprocess.run\<close> does with the argument list and the scratch storage. Scratch
  storage maps a path to the text of the file there.
\<close>

record config =
  vroom_bin :: string
  vroom_router :: string
  vroom_host :: string
  vroom_port :: string

type_synonym files = "string \<rightharpoonup> string"

datatype proc_result =
    Completed int string string
  | Expired
  | NotStarted

record world =
  py_repr :: "pyval \<Rightarrow> string"
  json_dumps :: "pyval \<Rightarrow> string"
  json_loads :: "string \<Rightarrow> string + pyval"
  tmp_name :: "files \<Rightarrow> string"
  subprocess_run :: "string list \<Rightarrow> files \<Rightarrow> proc_result \<times> files"

text \<open>\<^verbatim>\<open>s.strip()\<close>, for the ASCII whitespace characters.\<close>

definition isspace :: "char \<Rightarrow> bool" where
  "isspace c = (let n = (of_char c :: nat) in (9 \<le> n \<and> n \<le> 13) \<or> (28 \<le> n \<and> n \<le> 32))"

definition strip :: "string \<Rightarrow> string" where
  "strip s = rev (dropWhile isspace (rev (dropWhile isspace s)))"

text \<open>\<^verbatim>\<open>os.unlink(path)\<close>: it raises \<^verbatim>\<open>OSError\<close> when no file is there.\<close>

definition os_unlink :: "string \<Rightarrow> files \<Rightarrow> py_error + files" where
  "os_unlink path fs = (case fs path of None \<Rightarrow> Inl OSError | Some text \<Rightarrow> Inr (fs(path := None)))"

text \<open>
  \<^verbatim>\<open>run_vroom\<close> (source lines 167 to 206) returns its result, or the exception it
  raises, and the scratch storage it leaves. The \<^verbatim>\<open>finally\<close> block runs on every
  outcome of \<^verbatim>\<open>subprocess.run\<close>, and an \<^verbatim>\<open>OSError\<close> of the unlink is dropped.
\<close>

definition run_vroom :: "config \<Rightarrow> world \<Rightarrow> pyval \<Rightarrow> files \<Rightarrow> (py_error + pyval) \<times> files" where
  "run_vroom cfg w vroom_request fs =
     (let input_path = tmp_name w fs;
          fs1 = fs(input_path \<mapsto> json_dumps w vroom_request);
          args = [vroom_bin cfg, ''-r'', vroom_router cfg, ''-a'', vroom_host cfg,
                  ''-p'', vroom_port cfg, ''-i'', input_path];
          (result, fs2) = subprocess_run w args fs1;
          fs3 = (case os_unlink input_path fs2 of Inl e \<Rightarrow> fs2 | Inr fs' \<Rightarrow> fs')
      in
        ((case result of
            Expired \<Rightarrow> Inl TimeoutExpired
          | NotStarted \<Rightarrow> Inl OSError
          | Completed returncode out err \<Rightarrow>
              if returncode \<noteq> 0
              then Inl (RuntimeError (if strip err = [] then ''Unknown VROOM error'' else strip err))
              else if strip out = [] then Inl (RuntimeError ''VROOM returned no output.'')
              else (case json_loads w out of
                      Inl msg \<Rightarrow> Inl (JSONDecodeError msg)
                    | Inr solution \<Rightarrow> Inr solution)),
         fs3))"

section \<open>The request handlers\<close>

datatype response = Response int pyval

text \<open>A handler sends a response, or an exception nothing catches ends it.\<close>

datatype handled = Sent response | Uncaught py_error

text \<open>
  The request of the optimize endpoint, as its first two checks (source lines 323 to
  333) sort it: no numeric \<^verbatim>\<open>Content-Length\<close>, a body that is not JSON, or the
  decoded payload.
\<close>

datatype request_body = NoContentLength | NotJson | Json pyval

text \<open>The \<^verbatim>\<open>except\<close> clauses of \<^verbatim>\<open>handle_optimize\<close> (source lines 344 to 352).\<close>

fun optimize_except :: "py_error \<Rightarrow> handled" where
  "optimize_except TimeoutExpired =
     Sent (Response 504 (PDict [(''error'', PStr ''Optimization timed out.'')]))"
| "optimize_except (RuntimeError msg) =
     Sent (Response 502 (PDict [(''error'', PStr ''VROOM optimization failed.''),
                                 (''details'', PStr msg)]))"
| "optimize_except (JSONDecodeError msg) =
     Sent (Response 502 (PDict [(''error'', PStr ''VROOM returned invalid JSON.'')]))"
| "optimize_except e = Uncaught e"

text \<open>The success response (source lines 354 to 364).\<close>

definition optimize_ok :: "pyval \<Rightarrow> handled" where
  "optimize_ok solution =
     (case solution of
        PDict s \<Rightarrow>
          Sent (Response 200 (PDict
            [(''status'', PStr ''ok''),
             (''summary'', dict_get_default s ''summary'' (PDict [])),
             (''routes'', dict_get_default s ''routes'' (PList [])),
             (''unassigned'', dict_get_default s ''unassigned'' (PList [])),
             (''raw'', solution)]))
      | other \<Rightarrow> Uncaught AttributeError)"

text \<open>
  \<^verbatim>\<open>handle_optimize\<close> (source lines 322 to 364). The name \<^verbatim>\<open>solution\<close> is bound
  to what \<^verbatim>\<open>run_vroom\<close> returns and then to what \<^verbatim>\<open>add_external_ids\<close> returns,
  which is the same object, annotated in place.
\<close>

definition handle_optimize :: "config \<Rightarrow> world \<Rightarrow> request_body \<Rightarrow> files \<Rightarrow> handled \<times> files" where
  "handle_optimize cfg w request fs =
     (case request of
        NoContentLength \<Rightarrow>
          (Sent (Response 400 (PDict [(''error'', PStr ''Content-Length header must be set.'')])), fs)
      | NotJson \<Rightarrow>
          (Sent (Response 400 (PDict [(''error'', PStr ''Request body must be valid JSON.'')])), fs)
      | Json payload \<Rightarrow>
          (let errors = validate_payload payload in
           if errors \<noteq> []
           then (Sent (Response 400 (PDict [(''error'', PStr ''Validation failed.''),
                                             (''issues'', PList (map PStr errors))])), fs)
           else
             (case build_vroom_request (py_repr w) payload of
                Inl e \<Rightarrow> (optimize_except e, fs)
              | Inr (vroom_request, vehicle_map, job_map) \<Rightarrow>
                  (let (ran, fs') = run_vroom cfg w vroom_request fs in
                   (case and_then ran (\<lambda>solution. add_external_ids solution vehicle_map job_map) of
                      Inl e \<Rightarrow> (optimize_except e, fs')
                    | Inr solution \<Rightarrow> (optimize_ok solution, fs'))))))"

text \<open>
  What \<^verbatim>\<open>urlopen\<close> gives the probe: a response with its status and body, or an
  exception (\<^verbatim>\<open>HTTPError\<close> for a status outside 200 to 299, \<^verbatim>\<open>URLError\<close>,
  \<^verbatim>\<open>TimeoutError\<close>), each with the text \<^verbatim>\<open>str(err)\<close> gives.
\<close>

datatype http_body = NotUtf8 | Utf8 string

datatype urlopen_result = Opened int http_body | Raised py_error

text \<open>\<^verbatim>\<open>check_osrm\<close> (source lines 39 to 49).\<close>

definition check_osrm :: "world \<Rightarrow> urlopen_result \<Rightarrow> py_error + (bool \<times> pyval)" where
  "check_osrm w probe =
     (case probe of
        Raised e \<Rightarrow> Inl e
      | Opened status body \<Rightarrow>
          if status \<noteq> 200 then Inr (False, PStr (''HTTP '' @ str_int status))
          else
            (case body of
               NotUtf8 \<Rightarrow> Inl UnicodeDecodeError
             | Utf8 text \<Rightarrow>
                 (case json_loads w text of
                    Inl msg \<Rightarrow> Inl (JSONDecodeError msg)
                  | Inr payload \<Rightarrow>
                      and_then (py_get payload ''code'' PNone) (\<lambda>code.
                      and_then (py_get payload ''code'' (PStr ''unknown'')) (\<lambda>detail.
                        Inr (code = PStr ''Ok'', detail))))))"

text \<open>
  The errors \<^verbatim>\<open>handle_health\<close> catches (source line 277), with the text it puts in
  \<^verbatim>\<open>detail\<close>.
\<close>

fun health_except :: "py_error \<Rightarrow> string option" where
  "health_except (HTTPError msg) = Some msg"
| "health_except (URLError msg) = Some msg"
| "health_except (TimeoutError msg) = Some msg"
| "health_except (JSONDecodeError msg) = Some msg"
| "health_except e = None"

text \<open>
  \<^verbatim>\<open>handle_health\<close> (source lines 271 to 295); \<open>vroom_exists\<close> is what
  \<^verbatim>\<open>os.path.exists(VROOM_BIN)\<close> returns.
\<close>

definition health_response :: "bool \<Rightarrow> bool \<Rightarrow> pyval \<Rightarrow> response" where
  "health_response vroom_ready osrm_ready detail =
     (let overall_ready = (vroom_ready \<and> osrm_ready);
          status_code = (if overall_ready then 200 else 503);
          status_text = (if overall_ready then ''ok'' else ''degraded'')
      in Response status_code (PDict
           [(''status'', PStr status_text),
            (''checks'', PDict
               [(''vroom_binary'', PStr (if vroom_ready then ''ok'' else ''missing'')),
                (''osrm'', PStr (if osrm_ready then ''ok'' else ''down'')),
                (''osrm_detail'', detail)])]))"

definition handle_health :: "world \<Rightarrow> bool \<Rightarrow> urlopen_result \<Rightarrow> handled" where
  "handle_health w vroom_exists probe =
     (case check_osrm w probe of
        Inr (osrm_ready, detail) \<Rightarrow> Sent (health_response vroom_exists osrm_ready detail)
      | Inl e \<Rightarrow>
          (case health_except e of
             Some msg \<Rightarrow> Sent (health_response vroom_exists False (PStr msg))
           | None \<Rightarrow> Uncaught e))"

section \<open>Notions the properties are stated with\<close>


text \<open>A request in which every number is a JSON boolean.\<close>

definition boolean_payload :: pyval where
  "boolean_payload =
     PDict [(''depot'', PDict [(''location'', PList [PBool True, PBool False])]),
            (''vehicles'', PList [PDict [(''capacity'', PBool True),
                                         (''start'', PList [PBool True, PBool True]),
                                         (''time_window'', PList [PBool False, PBool True])]]),
            (''jobs'', PList [PDict [(''location'', PList [PBool False, PBool True]),
                                     (''demand'', PBool True),
                                     (''service'', PBool True),
                                     (''time_windows'', PList [PList [PBool True, PBool True]])]])]"

text \<open>\<^verbatim>\<open>del d[k]\<close>: the dict without the key.\<close>

definition dict_del :: "pydict \<Rightarrow> string \<Rightarrow> pydict" where
  "dict_del d k = filter (\<lambda>kv. fst kv \<noteq> k) d"

text \<open>
  The request of the specification's end-to-end example,
  \<^verbatim>\<open>{"depot":{"location":[7.0,43.0]},"vehicles":[{"capacity":10}],
   "jobs":[{"location":[7.1,43.1]}]}\<close>, with the exact values of the doubles.
\<close>

definition example_payload :: pyval where
  "example_payload =
     PDict [(''depot'', PDict [(''location'', PList [PFloat (Finite 7), PFloat (Finite 43)])]),
            (''vehicles'', PList [PDict [(''capacity'', PInt 10)]]),
            (''jobs'', PList [PDict [(''location'',
               PList [PFloat (Finite (3996944669291315 / 562949953421312)),
                      PFloat (Finite (6065785748114637 / 140737488355328))])]])]"


text \<open>A request whose job gives \<^verbatim>\<open>"service": null\<close>.\<close>

definition null_service_payload :: pyval where
  "null_service_payload =
     PDict [(''depot'', PDict [(''location'', PList [PInt 7, PInt 43])]),
            (''vehicles'', PList [PDict [(''capacity'', PInt 10)]]),
            (''jobs'', PList [PDict [(''location'', PList [PInt 8, PInt 44]),
                                     (''service'', PNone)]])]"


text \<open>The configuration the source falls back to when the environment sets nothing.\<close>

definition default_config :: config where
  "default_config =
     \<lparr>vroom_bin = ''/usr/local/bin/vroom'', vroom_router = ''osrm'',
      vroom_host = ''osrm'', vroom_port = ''5001''\<rparr>"

text \<open>
  A world for examples: the solver process always ends with \<open>outcome\<close> and touches no
  file, and \<^verbatim>\<open>json.loads\<close> always gives \<open>parsed\<close>.
\<close>

definition stub_world :: "proc_result \<Rightarrow> string + pyval \<Rightarrow> world" where
  "stub_world outcome parsed =
     \<lparr>py_repr = (\<lambda>v. []), json_dumps = (\<lambda>v. ''{}''), json_loads = (\<lambda>text. parsed),
      tmp_name = (\<lambda>fs. ''/tmp/tmp0.json''),
      subprocess_run = (\<lambda>args fs. (outcome, fs))\<rparr>"

text \<open>
  A solver output for \<^const>\<open>example_payload\<close>, as \<^verbatim>\<open>json.loads\<close> decodes it, and
  the same output after \<^verbatim>\<open>add_external_ids\<close>.
\<close>

definition example_solution :: pyval where
  "example_solution =
     PDict [(''code'', PInt 0),
            (''summary'', PDict [(''cost'', PInt 12)]),
            (''unassigned'', PList []),
            (''routes'', PList [PDict
               [(''vehicle'', PInt 1),
                (''steps'', PList [PDict [(''type'', PStr ''start'')],
                                   PDict [(''type'', PStr ''job''), (''job'', PInt 1)],
                                   PDict [(''type'', PStr ''end'')]])]])]"

definition example_annotated_routes :: pyval where
  "example_annotated_routes =
     PList [PDict
       [(''vehicle'', PInt 1),
        (''steps'', PList [PDict [(''type'', PStr ''start'')],
                           PDict [(''type'', PStr ''job''), (''job'', PInt 1),
                                  (''job_external_id'', PStr ''job-1'')],
                           PDict [(''type'', PStr ''end'')]]),
        (''vehicle_external_id'', PStr ''vehicle-1'')]]"

definition example_annotated :: pyval where
  "example_annotated =
     PDict [(''code'', PInt 0),
            (''summary'', PDict [(''cost'', PInt 12)]),
            (''unassigned'', PList []),
            (''routes'', example_annotated_routes)]"

text \<open>
  The probe succeeds: the upstream answers 200 with a JSON object whose \<^verbatim>\<open>code\<close> is
  the string \<^verbatim>\<open>"Ok"\<close>.
\<close>

definition probe_ok :: "world \<Rightarrow> urlopen_result \<Rightarrow> bool" where
  "probe_ok w probe =
     (case probe of
        Opened status (Utf8 text) \<Rightarrow>
          status = 200 \<and>
          (case json_loads w text of
             Inr (PDict p) \<Rightarrow> map_of p ''code'' = Some (PStr ''Ok'')
           | other \<Rightarrow> False)
      | other \<Rightarrow> False)"

text \<open>
  What the health check reports about a probe, when it reports: the text of a
  transport or decoding error, \<^verbatim>\<open>HTTP <status>\<close> for a status other than 200, the
  value under \<^verbatim>\<open>code\<close> of the JSON object the upstream sent, whatever its type, or
  \<^verbatim>\<open>"unknown"\<close> when the object has none. There is none for a 200 answer that is not
  UTF-8 or whose JSON is not an object, and for any other exception.
\<close>

definition probe_detail :: "world \<Rightarrow> urlopen_result \<Rightarrow> pyval option" where
  "probe_detail w probe =
     (case probe of
        Raised e \<Rightarrow> map_option PStr (health_except e)
      | Opened status body \<Rightarrow>
          if status \<noteq> 200 then Some (PStr (''HTTP '' @ str_int status))
          else
            (case body of
               NotUtf8 \<Rightarrow> None
             | Utf8 text \<Rightarrow>
                 (case json_loads w text of
                    Inl msg \<Rightarrow> Some (PStr msg)
                  | Inr (PDict p) \<Rightarrow> Some (dict_get_default p ''code'' (PStr ''unknown''))
                  | Inr other \<Rightarrow> None)))"

text \<open>
  The external id of an entity at 1-based position \<open>i\<close>: \<^verbatim>\<open>str\<close> of the value under
  its key \<^verbatim>\<open>id\<close> (for a string, the string itself), or the prefix followed by the
  position when it has no such key.
\<close>

definition entity_external_id :: "(pyval \<Rightarrow> string) \<Rightarrow> string \<Rightarrow> int \<Rightarrow> pyval \<Rightarrow> string" where
  "entity_external_id repr prefix i entity =
     (case entity of
        PDict e \<Rightarrow>
          (case map_of e ''id'' of
             None \<Rightarrow> prefix @ str_int i
           | Some ident \<Rightarrow> py_str repr ident)
      | other \<Rightarrow> [])"

definition external_id :: "(pyval \<Rightarrow> string) \<Rightarrow> string \<Rightarrow> pyval list \<Rightarrow> int \<Rightarrow> string" where
  "external_id repr prefix entities i =
     (if 1 \<le> i \<and> i \<le> int (length entities)
      then entity_external_id repr prefix i (entities ! nat (i - 1))
      else [])"

text \<open>The value under a key of an entry, and the list under a key.\<close>

definition field :: "pyval \<Rightarrow> string \<Rightarrow> pyval" where
  "field v k = (case v of PDict d \<Rightarrow> dict_get d k | other \<Rightarrow> PNone)"

definition items :: "pyval \<Rightarrow> string \<Rightarrow> pyval list" where
  "items v k =
     (case v of
        PDict d \<Rightarrow> (case map_of d k of Some (PList xs) \<Rightarrow> xs | other \<Rightarrow> [])
      | other \<Rightarrow> [])"

text \<open>
  A solution that references the indices assigned to \<open>n\<close> vehicles and \<open>m\<close> jobs: its
  routes, their steps and its unassigned entries are objects in lists, every route
  names a vehicle from 1 to \<open>n\<close>, every unassigned entry a job from 1 to \<open>m\<close>, and
  every step that names a job names one from 1 to \<open>m\<close>.
\<close>

definition index_in :: "int \<Rightarrow> pyval \<Rightarrow> bool" where
  "index_in n v = (case v of PInt i \<Rightarrow> 1 \<le> i \<and> i \<le> n | other \<Rightarrow> False)"

definition step_ok :: "int \<Rightarrow> pyval \<Rightarrow> bool" where
  "step_ok m step =
     (case step of
        PDict d \<Rightarrow> (case map_of d ''job'' of None \<Rightarrow> True | Some j \<Rightarrow> index_in m j)
      | other \<Rightarrow> False)"

definition route_ok :: "int \<Rightarrow> int \<Rightarrow> pyval \<Rightarrow> bool" where
  "route_ok n m route =
     (case route of
        PDict d \<Rightarrow>
          index_in n (dict_get d ''vehicle'') \<and>
          (case map_of d ''steps'' of
             None \<Rightarrow> True
           | Some (PList steps) \<Rightarrow> list_all (step_ok m) steps
           | Some other \<Rightarrow> False)
      | other \<Rightarrow> False)"

definition unassigned_ok :: "int \<Rightarrow> pyval \<Rightarrow> bool" where
  "unassigned_ok m unassigned =
     (case unassigned of PDict d \<Rightarrow> index_in m (dict_get d ''id'') | other \<Rightarrow> False)"

definition references_assigned :: "int \<Rightarrow> int \<Rightarrow> pyval \<Rightarrow> bool" where
  "references_assigned n m solution =
     (case solution of
        PDict s \<Rightarrow>
          (case map_of s ''routes'' of
             None \<Rightarrow> True
           | Some (PList routes) \<Rightarrow> list_all (route_ok n m) routes
           | Some other \<Rightarrow> False) \<and>
          (case map_of s ''unassigned'' of
             None \<Rightarrow> True
           | Some (PList unassigned) \<Rightarrow> list_all (unassigned_ok m) unassigned
           | Some other \<Rightarrow> False)
      | other \<Rightarrow> False)"

text \<open>
  An entry of the solution and the same entry after reconciliation, for the external
  ids \<open>vehicle_id\<close> and \<open>job_id\<close> of the indices.
\<close>

definition step_annotated :: "(int \<Rightarrow> string) \<Rightarrow> pyval \<Rightarrow> pyval \<Rightarrow> bool" where
  "step_annotated job_id step step' =
     (if field step ''job'' = PNone then step' = step
      else field step' ''job_external_id'' = PStr (job_id (int_value (field step ''job''))))"

definition route_annotated ::
  "(int \<Rightarrow> string) \<Rightarrow> (int \<Rightarrow> string) \<Rightarrow> pyval \<Rightarrow> pyval \<Rightarrow> bool" where
  "route_annotated vehicle_id job_id route route' =
     (field route' ''vehicle_external_id'' = PStr (vehicle_id (int_value (field route ''vehicle'')))
      \<and> list_all2 (step_annotated job_id) (items route ''steps'') (items route' ''steps''))"

definition unassigned_annotated :: "(int \<Rightarrow> string) \<Rightarrow> pyval \<Rightarrow> pyval \<Rightarrow> bool" where
  "unassigned_annotated job_id unassigned unassigned' =
     (field unassigned' ''job_external_id'' = PStr (job_id (int_value (field unassigned ''id''))))"

definition solution_annotated ::
  "(int \<Rightarrow> string) \<Rightarrow> (int \<Rightarrow> string) \<Rightarrow> pyval \<Rightarrow> pyval \<Rightarrow> bool" where
  "solution_annotated vehicle_id job_id solution solution' =
     (list_all2 (route_annotated vehicle_id job_id)
        (items solution ''routes'') (items solution' ''routes'')
      \<and> list_all2 (unassigned_annotated job_id)
        (items solution ''unassigned'') (items solution' ''unassigned''))"

text \<open>
  A request with two vehicles and two jobs, the first of each named by the caller, a
  solution for it, and that solution reconciled.
\<close>

definition named_payload :: pyval where
  "named_payload =
     PDict [(''depot'', PDict [(''location'', PList [PInt 7, PInt 43])]),
            (''vehicles'', PList [PDict [(''id'', PStr ''van-A''), (''capacity'', PInt 10)],
                                  PDict [(''capacity'', PInt 5)]]),
            (''jobs'', PList [PDict [(''id'', PStr ''parcel-9''),
                                     (''location'', PList [PInt 8, PInt 44])],
                              PDict [(''location'', PList [PInt 8, PInt 45])]])]"

definition named_solution :: pyval where
  "named_solution =
     PDict [(''routes'', PList [PDict
               [(''vehicle'', PInt 2),
                (''steps'', PList [PDict [(''type'', PStr ''start'')],
                                   PDict [(''type'', PStr ''job''), (''job'', PInt 1)],
                                   PDict [(''type'', PStr ''end'')]])]]),
            (''unassigned'', PList [PDict [(''id'', PInt 2)]])]"

definition named_annotated :: pyval where
  "named_annotated =
     PDict [(''routes'', PList [PDict
               [(''vehicle'', PInt 2),
                (''steps'', PList [PDict [(''type'', PStr ''start'')],
                                   PDict [(''type'', PStr ''job''), (''job'', PInt 1),
                                          (''job_external_id'', PStr ''parcel-9'')],
                                   PDict [(''type'', PStr ''end'')]]),
                (''vehicle_external_id'', PStr ''vehicle-2'')]]),
            (''unassigned'', PList [PDict [(''id'', PInt 2),
                                           (''job_external_id'', PStr ''job-2'')]])]"

text \<open>
  A request whose vehicle has the number 7 as its \<^verbatim>\<open>id\<close> and whose job has
  \<^verbatim>\<open>"id": null\<close>, and a solution for it.
\<close>

definition numeric_id_payload :: pyval where
  "numeric_id_payload =
     PDict [(''depot'', PDict [(''location'', PList [PInt 7, PInt 43])]),
            (''vehicles'', PList [PDict [(''id'', PInt 7), (''capacity'', PInt 10)]]),
            (''jobs'', PList [PDict [(''id'', PNone), (''location'', PList [PInt 8, PInt 44])]])]"

definition numeric_id_solution :: pyval where
  "numeric_id_solution =
     PDict [(''routes'', PList [PDict
               [(''vehicle'', PInt 1), (''steps'', PList [PDict [(''job'', PInt 1)]])]])]"

section \<open>The coordinate check\<close>



section \<open>Booleans where the validator asks for a number\<close>

text \<open>
  C9. A JSON boolean passes wherever the validator asks for an integer or a number:
  the request \<^const>\<open>boolean_payload\<close>, whose capacity, demand, service duration,
  time-window bounds and coordinates are all booleans, is accepted with no error. A
  capacity \<^verbatim>\<open>true\<close> passes the vehicle check as the integer 1 does, while
  \<^verbatim>\<open>false\<close>, being 0, is refused as not positive; any pair of booleans is a
  coordinate.
\<close>

theorem booleans_pass_validation:
  "validate_payload boolean_payload = []
   \<and> validate_vehicle idx (PDict [(''capacity'', PBool True)]) = []
   \<and> validate_vehicle idx (PDict [(''capacity'', PBool False)]) \<noteq> []
   \<and> int_value (PBool True) = 1
   \<and> isinstance_int (PBool b) \<and> isinstance_int_float (PBool b)
   \<and> is_coord (PList [PBool a, PBool b])
   \<and> \<not> bad_time_window (PList [PBool a, PBool True])"
proof -
  have "validate_payload boolean_payload = []"
    by (simp add: boolean_payload_def validate_depot_def validate_vehicles_field_def
        validate_jobs_field_def dict_get_def dict_has_def dict_get_default_def)
  moreover have "validate_vehicle idx (PDict [(''capacity'', PBool True)]) = []"
    by (simp add: dict_get_def dict_has_def)
  moreover have "validate_vehicle idx (PDict [(''capacity'', PBool False)]) \<noteq> []"
    by (simp add: dict_get_def dict_has_def)
  ultimately show ?thesis by simp
qed


section \<open>Translation of a validated payload\<close>

lemma and_then_Inr: "and_then (Inr x) f = f x"
  by (simp add: and_then_def)


lemma validate_vehicle_ok:
  assumes "validate_vehicle idx v = []"
  shows "\<exists>d c. v = PDict d \<and> map_of d ''capacity'' = Some c"
proof (cases v)
  case (PDict d)
  with assms have "isinstance_int (dict_get d ''capacity'')"
    by (simp add: Let_def split: if_splits)
  then have "map_of d ''capacity'' \<noteq> None"
    by (auto simp: dict_get_def split: option.splits)
  with PDict show ?thesis by auto
qed (use assms in simp_all)

lemma build_vehicle_ok:
  assumes "validate_vehicle idx v = []"
  shows "\<exists>ext entry. build_vehicle repr dl idx' v = Inr (ext, entry)"
proof -
  from validate_vehicle_ok[OF assms] obtain d c
    where "v = PDict d" "map_of d ''capacity'' = Some c"
    by blast
  then show ?thesis
    by (simp add: build_vehicle_def and_then_Inr)
qed

lemma build_vehicles_ok:
  "validate_vehicles idx vs = [] \<Longrightarrow>
   \<exists>out m. build_vehicles repr dl idx' vs acc vmap = Inr (out, m)"
proof (induction vs arbitrary: idx idx' acc vmap)
  case Nil
  then show ?case by simp
next
  case (Cons v vs)
  from Cons.prems have v: "validate_vehicle idx v = []"
    and rest: "validate_vehicles (idx + 1) vs = []"
    by simp_all
  from build_vehicle_ok[OF v] obtain ext entry
    where "build_vehicle repr dl idx' v = Inr (ext, entry)"
    by blast
  then show ?case using Cons.IH[OF rest] by simp
qed

lemma validate_job_ok:
  assumes "validate_job idx j = []"
  shows "\<exists>d c. j = PDict d \<and> map_of d ''location'' = Some c"
proof (cases j)
  case (PDict d)
  with assms have "is_coord (dict_get d ''location'')"
    by (simp add: Let_def split: if_splits)
  then have "map_of d ''location'' \<noteq> None"
    by (auto simp: dict_get_def split: option.splits)
  with PDict show ?thesis by auto
qed (use assms in simp_all)

lemma build_job_ok:
  assumes "validate_job idx j = []"
  shows "\<exists>ext entry. build_job repr idx' j = Inr (ext, entry)"
proof -
  from validate_job_ok[OF assms] obtain d c
    where "j = PDict d" "map_of d ''location'' = Some c"
    by blast
  then show ?thesis
    by (simp add: build_job_def and_then_Inr)
qed

lemma build_jobs_ok:
  "validate_jobs idx js = [] \<Longrightarrow>
   \<exists>out m. build_jobs repr idx' js acc jmap = Inr (out, m)"
proof (induction js arbitrary: idx idx' acc jmap)
  case Nil
  then show ?case by simp
next
  case (Cons j js)
  from Cons.prems have j: "validate_job idx j = []"
    and rest: "validate_jobs (idx + 1) js = []"
    by simp_all
  from build_job_ok[OF j] obtain ext entry
    where "build_job repr idx' j = Inr (ext, entry)"
    by blast
  then show ?case using Cons.IH[OF rest] by simp
qed

text \<open>What an accepted payload looks like.\<close>

lemma validate_payload_shape:
  assumes "validate_payload payload = []"
  shows "\<exists>p depot loc vs js. payload = PDict p
      \<and> map_of p ''depot'' = Some (PDict depot) \<and> map_of depot ''location'' = Some loc
      \<and> map_of p ''vehicles'' = Some (PList vs) \<and> vs \<noteq> [] \<and> validate_vehicles 1 vs = []
      \<and> map_of p ''jobs'' = Some (PList js) \<and> js \<noteq> [] \<and> validate_jobs 1 js = []"
proof (cases payload)
  case (PDict p)
  with assms have d: "validate_depot p = []" and v: "validate_vehicles_field p = []"
    and j: "validate_jobs_field p = []"
    by simp_all
  from d obtain depot where depot: "map_of p ''depot'' = Some (PDict depot)"
      and "is_coord (dict_get depot ''location'')"
    by (auto simp: validate_depot_def dict_get_def split: option.splits pyval.splits if_splits)
  then obtain loc where loc: "map_of depot ''location'' = Some loc"
    by (auto simp: dict_get_def split: option.splits)
  from v obtain vs where vs: "map_of p ''vehicles'' = Some (PList vs)" "vs \<noteq> []"
      "validate_vehicles 1 vs = []"
    by (auto simp: validate_vehicles_field_def dict_get_def
        split: option.splits pyval.splits list.splits)
  from j obtain js where js: "map_of p ''jobs'' = Some (PList js)" "js \<noteq> []"
      "validate_jobs 1 js = []"
    by (auto simp: validate_jobs_field_def dict_get_def
        split: option.splits pyval.splits list.splits)
  from PDict depot loc vs js show ?thesis by blast
qed (use assms in simp_all)

lemma build_total:
  assumes "validate_payload payload = []"
  shows "\<exists>req vm jm. build_vroom_request repr payload = Inr (req, vm, jm)"
proof -
  from validate_payload_shape[OF assms] obtain p depot loc vs js where
    s: "payload = PDict p" "map_of p ''depot'' = Some (PDict depot)"
      "map_of depot ''location'' = Some loc"
      "map_of p ''vehicles'' = Some (PList vs)" "validate_vehicles 1 vs = []"
      "map_of p ''jobs'' = Some (PList js)" "validate_jobs 1 js = []"
    by blast
  obtain vout vm where v: "build_vehicles repr loc 1 vs [] Map.empty = Inr (vout, vm)"
    using build_vehicles_ok[OF s(5)] by blast
  obtain jout jm where j: "build_jobs repr 1 js [] Map.empty = Inr (jout, jm)"
    using build_jobs_ok[OF s(7)] by blast
  show ?thesis
    using s v j by (simp add: build_vroom_request_def and_then_Inr)
qed

lemma example_payload_valid: "validate_payload example_payload = []"
  by (simp add: example_payload_def validate_depot_def validate_vehicles_field_def
      validate_jobs_field_def dict_get_def dict_has_def dict_get_default_def)



section \<open>A null service duration\<close>

lemma map_of_dict_del: "map_of (dict_del d k) k' = (if k' = k then None else map_of d k')"
  by (induction d) (auto simp: dict_del_def)

text \<open>
  C10. A job whose \<^verbatim>\<open>service\<close> key is present with the value null gets from the
  validator exactly the errors the same job without the key gets, so it passes when
  that one does. The translation then emits the solver job record with
  \<^verbatim>\<open>service\<close> null, and with the default 300 only when the key is absent.
\<close>

theorem null_service_passes_and_is_emitted:
  assumes "map_of job ''service'' = Some PNone"
    and "map_of job ''location'' = Some loc"
  shows "validate_job idx (PDict job) = validate_job idx (PDict (dict_del job ''service''))
     \<and> (\<exists>ext entry. build_job repr idx (PDict job) = Inr (ext, PDict entry)
            \<and> map_of entry ''service'' = Some PNone)
     \<and> (\<exists>ext entry. build_job repr idx (PDict (dict_del job ''service'')) = Inr (ext, PDict entry)
            \<and> map_of entry ''service'' = Some (PInt 300))"
proof -
  have "validate_job idx (PDict job) = validate_job idx (PDict (dict_del job ''service''))"
    using assms(1)
    by (simp add: dict_get_def dict_get_default_def dict_has_def map_of_dict_del)
  moreover have "\<exists>ext entry. build_job repr idx (PDict job) = Inr (ext, PDict entry)
            \<and> map_of entry ''service'' = Some PNone"
    using assms by (simp add: build_job_def and_then_Inr dict_get_default_def)
  moreover have "\<exists>ext entry.
      build_job repr idx (PDict (dict_del job ''service'')) = Inr (ext, PDict entry)
            \<and> map_of entry ''service'' = Some (PInt 300)"
    using assms by (simp add: build_job_def and_then_Inr dict_get_default_def map_of_dict_del)
  ultimately show ?thesis by blast
qed

theorem null_service_passes_and_is_emitted_witness:
  "validate_payload null_service_payload = []
   \<and> validate_job 1 (PDict [(''location'', PList [PInt 8, PInt 44]), (''service'', PNone)]) = []
   \<and> map_sum id fst (build_vroom_request (\<lambda>v. []) null_service_payload) =
       Inr (PDict
         [(''vehicles'', PList [PDict
             [(''id'', PInt 1), (''capacity'', PList [PInt 10]),
              (''start'', PList [PInt 7, PInt 43]), (''end'', PList [PInt 7, PInt 43])]]),
          (''jobs'', PList [PDict
             [(''id'', PInt 1), (''location'', PList [PInt 8, PInt 44]),
              (''service'', PNone), (''delivery'', PList [PInt 1])]])])"
proof -
  have s: "map_of [(''location'', PList [PInt 8, PInt 44]), (''service'', PNone)] ''service''
      = Some PNone"
    and l: "map_of [(''location'', PList [PInt 8, PInt 44]), (''service'', PNone)] ''location''
      = Some (PList [PInt 8, PInt 44])"
    by simp_all
  have "validate_job 1 (PDict [(''location'', PList [PInt 8, PInt 44]), (''service'', PNone)])
      = validate_job 1 (PDict (dict_del
          [(''location'', PList [PInt 8, PInt 44]), (''service'', PNone)] ''service''))"
    using null_service_passes_and_is_emitted[OF s l, of 1 "\<lambda>v. []"] by blast
  then have "validate_job 1
      (PDict [(''location'', PList [PInt 8, PInt 44]), (''service'', PNone)]) = []"
    by (simp add: dict_del_def dict_get_def dict_get_default_def dict_has_def)
  moreover have "validate_payload null_service_payload = []"
    by (simp add: null_service_payload_def validate_depot_def validate_vehicles_field_def
        validate_jobs_field_def dict_get_def dict_has_def dict_get_default_def)
  moreover have "map_sum id fst (build_vroom_request (\<lambda>v. []) null_service_payload) =
       Inr (PDict
         [(''vehicles'', PList [PDict
             [(''id'', PInt 1), (''capacity'', PList [PInt 10]),
              (''start'', PList [PInt 7, PInt 43]), (''end'', PList [PInt 7, PInt 43])]]),
          (''jobs'', PList [PDict
             [(''id'', PInt 1), (''location'', PList [PInt 8, PInt 44]),
              (''service'', PNone), (''delivery'', PList [PInt 1])]])])"
    by (simp add: null_service_payload_def build_vroom_request_def build_vehicle_def
        build_job_def and_then_def dict_get_default_def)
  ultimately show ?thesis by blast
qed


section \<open>Indices the identity maps do not hold\<close>



lemma map_of_dict_set: "map_of (dict_set d k v) k' = (if k' = k then Some v else map_of d k')"
  by (induction d) auto













section \<open>The scratch file of the solver\<close>



lemma run_vroom_result:
  "fst (run_vroom cfg w req fs) =
    (case fst (subprocess_run w
           [vroom_bin cfg, ''-r'', vroom_router cfg, ''-a'', vroom_host cfg,
            ''-p'', vroom_port cfg, ''-i'', tmp_name w fs]
           (fs(tmp_name w fs \<mapsto> json_dumps w req))) of
       Expired \<Rightarrow> Inl TimeoutExpired
     | NotStarted \<Rightarrow> Inl OSError
     | Completed returncode out err \<Rightarrow>
         if returncode \<noteq> 0
         then Inl (RuntimeError (if strip err = [] then ''Unknown VROOM error'' else strip err))
         else if strip out = [] then Inl (RuntimeError ''VROOM returned no output.'')
         else (case json_loads w out of
                 Inl msg \<Rightarrow> Inl (JSONDecodeError msg)
               | Inr solution \<Rightarrow> Inr solution))"
  by (simp add: run_vroom_def Let_def split_def)

text \<open>The handler on a payload the validator accepts.\<close>

lemma handle_optimize_valid:
  assumes "validate_payload payload = []"
    and "build_vroom_request (py_repr w) payload = Inr (req, vm, jm)"
  shows "handle_optimize cfg w (Json payload) fs =
    ((case and_then (fst (run_vroom cfg w req fs)) (\<lambda>solution. add_external_ids solution vm jm) of
        Inl e \<Rightarrow> optimize_except e
      | Inr solution \<Rightarrow> optimize_ok solution),
     snd (run_vroom cfg w req fs))"
  using assms by (simp add: handle_optimize_def split_def split: sum.splits)






section \<open>A solver that exits with an error\<close>








section \<open>The success response\<close>

lemma str_int_1: "str_int 1 = ''1''"
  by code_simp

lemma optimize_ok_200:
  "optimize_ok solution = Sent (Response 200 body) \<Longrightarrow>
   \<exists>s. solution = PDict s \<and> body = PDict
            [(''status'', PStr ''ok''),
             (''summary'', dict_get_default s ''summary'' (PDict [])),
             (''routes'', dict_get_default s ''routes'' (PList [])),
             (''unassigned'', dict_get_default s ''unassigned'' (PList [])),
             (''raw'', PDict s)]"
  by (auto simp: optimize_ok_def split: pyval.splits)

lemma optimize_except_not_200: "optimize_except e \<noteq> Sent (Response 200 body)"
  by (cases e) simp_all

lemma example_success_run:
  "fst (handle_optimize default_config
          (stub_world (Completed 0 ''{...}'' []) (Inr example_solution))
          (Json example_payload) Map.empty) =
     Sent (Response 200 (PDict
       [(''status'', PStr ''ok''),
        (''summary'', PDict [(''cost'', PInt 12)]),
        (''routes'', example_annotated_routes),
        (''unassigned'', PList []),
        (''raw'', example_annotated)]))"
proof -
  have b: "build_vroom_request (\<lambda>v. []) example_payload =
      Inr (PDict
         [(''vehicles'', PList [PDict
             [(''id'', PInt 1), (''capacity'', PList [PInt 10]),
              (''start'', PList [PFloat (Finite 7), PFloat (Finite 43)]),
              (''end'', PList [PFloat (Finite 7), PFloat (Finite 43)])]]),
          (''jobs'', PList [PDict
             [(''id'', PInt 1),
              (''location'', PList [PFloat (Finite (3996944669291315 / 562949953421312)),
                                    PFloat (Finite (6065785748114637 / 140737488355328))]),
              (''service'', PInt 300), (''delivery'', PList [PInt 1])]])],
        [1 \<mapsto> ''vehicle-1''], [1 \<mapsto> ''job-1''])"
    by (simp add: example_payload_def build_vroom_request_def build_vehicle_def
        build_job_def and_then_def dict_get_default_def py_str_def str_int_1)
  have a: "add_external_ids example_solution [1 \<mapsto> ''vehicle-1''] [1 \<mapsto> ''job-1'']
      = Inr example_annotated"
    by (simp add: example_solution_def example_annotated_def example_annotated_routes_def
        add_external_ids_def annotate_route_def annotate_unassigned_def annotate_step_def
        annotate_def and_then_def for_each_in_def dict_get_def)
  have r: "fst (run_vroom default_config
        (stub_world (Completed 0 ''{...}'' []) (Inr example_solution)) req Map.empty)
      = Inr example_solution" for req
    by (simp add: run_vroom_result stub_world_def strip_def isspace_def)
  have w: "py_repr (stub_world (Completed 0 ''{...}'' []) (Inr example_solution)) = (\<lambda>v. [])"
    by (simp add: stub_world_def)
  have "optimize_ok example_annotated =
     Sent (Response 200 (PDict
       [(''status'', PStr ''ok''),
        (''summary'', PDict [(''cost'', PInt 12)]),
        (''routes'', example_annotated_routes),
        (''unassigned'', PList []),
        (''raw'', example_annotated)]))"
    by (simp add: optimize_ok_def example_annotated_def dict_get_default_def)
  then show ?thesis
    using b a r w
    by (simp add: handle_optimize_valid[OF example_payload_valid, where w =
          "stub_world (Completed 0 ''{...}'' []) (Inr example_solution)"] and_then_Inr)
qed

text \<open>
  C1, as stated, fails in its second half: for \<^const>\<open>example_payload\<close> and a solver
  that prints \<^const>\<open>example_solution\<close>, the \<^verbatim>\<open>raw\<close> field of the 200 response is
  \<^const>\<open>example_annotated\<close>, which carries \<^verbatim>\<open>vehicle_external_id\<close> and
  \<^verbatim>\<open>job_external_id\<close> and is not the solver's output.
\<close>

theorem raw_is_unmodified_counterexample:
  "json_loads (stub_world (Completed 0 ''{...}'' []) (Inr example_solution)) ''{...}''
     = Inr example_solution
   \<and> fst (handle_optimize default_config
          (stub_world (Completed 0 ''{...}'' []) (Inr example_solution))
          (Json example_payload) Map.empty) =
       Sent (Response 200 (PDict
         [(''status'', PStr ''ok''),
          (''summary'', PDict [(''cost'', PInt 12)]),
          (''routes'', example_annotated_routes),
          (''unassigned'', PList []),
          (''raw'', example_annotated)]))
   \<and> example_annotated \<noteq> example_solution
   \<and> dict_get_default
        [(''code'', PInt 0), (''summary'', PDict [(''cost'', PInt 12)]),
         (''unassigned'', PList []), (''routes'', example_annotated_routes)] ''routes'' PNone
       = example_annotated_routes"
  by (simp add: example_success_run)
    (simp add: stub_world_def example_annotated_def example_solution_def
      example_annotated_routes_def dict_get_default_def)

text \<open>
  C1, amended. On a 200 response of the optimize endpoint, the request was a payload
  the validator accepts, the solver returned a solution, and the reconciler returned
  it annotated with the external ids; \<^verbatim>\<open>summary\<close>, \<^verbatim>\<open>routes\<close> and
  \<^verbatim>\<open>unassigned\<close> are the values of the annotated solution under these keys (an
  empty dict or list for a key it lacks), and \<^verbatim>\<open>raw\<close> is the annotated solution
  itself: the solver's output with the annotations added in place.
\<close>

theorem success_response_carries_annotated_solution:
  assumes "fst (handle_optimize cfg w request fs) = Sent (Response 200 body)"
  shows "\<exists>payload req vehicle_map job_map solution annotated.
      request = Json payload \<and> validate_payload payload = []
      \<and> build_vroom_request (py_repr w) payload = Inr (req, vehicle_map, job_map)
      \<and> fst (run_vroom cfg w req fs) = Inr solution
      \<and> add_external_ids solution vehicle_map job_map = Inr (PDict annotated)
      \<and> body = PDict
            [(''status'', PStr ''ok''),
             (''summary'', dict_get_default annotated ''summary'' (PDict [])),
             (''routes'', dict_get_default annotated ''routes'' (PList [])),
             (''unassigned'', dict_get_default annotated ''unassigned'' (PList [])),
             (''raw'', PDict annotated)]"
proof (cases request)
  case (Json payload)
  have v: "validate_payload payload = []"
  proof (rule ccontr)
    assume "validate_payload payload \<noteq> []"
    with assms Json show False by (simp add: handle_optimize_def Let_def)
  qed
  obtain req vm jm where b: "build_vroom_request (py_repr w) payload = Inr (req, vm, jm)"
    using build_total[OF v] by blast
  from assms Json have "(case and_then (fst (run_vroom cfg w req fs))
          (\<lambda>solution. add_external_ids solution vm jm) of
        Inl e \<Rightarrow> optimize_except e
      | Inr solution \<Rightarrow> optimize_ok solution) = Sent (Response 200 body)"
    by (simp add: handle_optimize_valid[OF v b])
  then obtain ann
    where a: "and_then (fst (run_vroom cfg w req fs))
          (\<lambda>solution. add_external_ids solution vm jm) = Inr ann"
      and ok: "optimize_ok ann = Sent (Response 200 body)"
    by (auto simp: optimize_except_not_200 split: sum.splits)
  from a obtain solution where s: "fst (run_vroom cfg w req fs) = Inr solution"
    and a': "add_external_ids solution vm jm = Inr ann"
    by (auto simp: and_then_def split: sum.splits)
  from optimize_ok_200[OF ok] obtain s' where "ann = PDict s'" and "body = PDict
            [(''status'', PStr ''ok''),
             (''summary'', dict_get_default s' ''summary'' (PDict [])),
             (''routes'', dict_get_default s' ''routes'' (PList [])),
             (''unassigned'', dict_get_default s' ''unassigned'' (PList [])),
             (''raw'', PDict s')]"
    by blast
  with Json v b s a' show ?thesis by blast
qed (use assms in \<open>simp_all add: handle_optimize_def\<close>)

theorem success_response_carries_annotated_solution_witness:
  "fst (handle_optimize default_config
          (stub_world (Completed 0 ''{...}'' []) (Inr example_solution))
          (Json example_payload) Map.empty) =
       Sent (Response 200 (PDict
         [(''status'', PStr ''ok''),
          (''summary'', PDict [(''cost'', PInt 12)]),
          (''routes'', example_annotated_routes),
          (''unassigned'', PList []),
          (''raw'', example_annotated)]))
   \<and> (\<exists>req vehicle_map job_map.
        build_vroom_request (\<lambda>v. []) example_payload = Inr (req, vehicle_map, job_map)
        \<and> add_external_ids example_solution vehicle_map job_map = Inr example_annotated)"
proof -
  from success_response_carries_annotated_solution[OF example_success_run]
  obtain payload req vm jm solution annotated where
    p: "Json example_payload = Json payload"
    and b: "build_vroom_request
        (py_repr (stub_world (Completed 0 ''{...}'' []) (Inr example_solution))) payload
        = Inr (req, vm, jm)"
    and r: "fst (run_vroom default_config
        (stub_world (Completed 0 ''{...}'' []) (Inr example_solution)) req Map.empty)
        = Inr solution"
    and a: "add_external_ids solution vm jm = Inr (PDict annotated)"
    and raw: "PDict
         [(''status'', PStr ''ok''),
          (''summary'', PDict [(''cost'', PInt 12)]),
          (''routes'', example_annotated_routes),
          (''unassigned'', PList []),
          (''raw'', example_annotated)] = PDict
            [(''status'', PStr ''ok''),
             (''summary'', dict_get_default annotated ''summary'' (PDict [])),
             (''routes'', dict_get_default annotated ''routes'' (PList [])),
             (''unassigned'', dict_get_default annotated ''unassigned'' (PList [])),
             (''raw'', PDict annotated)]"
    by blast
  have "solution = example_solution"
    using r by (simp add: run_vroom_result stub_world_def strip_def isspace_def)
  moreover have "PDict annotated = example_annotated"
    using raw by simp
  moreover have "payload = example_payload"
    using p by simp
  ultimately have "build_vroom_request (\<lambda>v. []) example_payload = Inr (req, vm, jm)
      \<and> add_external_ids example_solution vm jm = Inr example_annotated"
    using b a by (simp add: stub_world_def)
  then show ?thesis
    using example_success_run by blast
qed


section \<open>The health endpoint\<close>

lemma check_osrm_detail:
  assumes "probe_detail w probe = Some detail"
  shows "check_osrm w probe = Inr (probe_ok w probe, detail)
     \<or> (\<exists>e msg. check_osrm w probe = Inl e \<and> health_except e = Some msg
            \<and> detail = PStr msg \<and> \<not> probe_ok w probe)"
proof (cases probe)
  case (Raised e)
  with assms show ?thesis
    by (auto simp: probe_detail_def check_osrm_def probe_ok_def)
next
  case (Opened status body)
  show ?thesis
  proof (cases "status = 200")
    case False
    with assms Opened show ?thesis
      by (auto simp: probe_detail_def check_osrm_def probe_ok_def split: http_body.splits)
  next
    case True
    with assms Opened obtain t where b: "body = Utf8 t"
      by (cases body) (auto simp: probe_detail_def)
    show ?thesis
    proof (cases "json_loads w t")
      case (Inl msg)
      with assms Opened True b show ?thesis
        by (auto simp: probe_detail_def check_osrm_def probe_ok_def)
    next
      case (Inr payload)
      with assms Opened True b obtain p where p: "payload = PDict p"
        by (cases payload) (auto simp: probe_detail_def)
      with assms Opened True b Inr show ?thesis
        by (auto simp: probe_detail_def check_osrm_def probe_ok_def and_then_def
            dict_get_default_def split: option.splits)
    qed
  qed
qed

text \<open>
  C6, as stated, fails twice. The upstream answers 200 with the JSON object
  \<^verbatim>\<open>{"code": 5}\<close>: the response is 503 and its \<^verbatim>\<open>osrm_detail\<close> is the number 5,
  not a string. The upstream answers 200 with the JSON array \<^verbatim>\<open>[]\<close>: calling
  \<^verbatim>\<open>get\<close> on a list raises \<^verbatim>\<open>AttributeError\<close>, which the handler does not
  catch, and no 503 is sent.
\<close>

theorem health_always_responds_counterexample:
  "handle_health (stub_world NotStarted (Inr (PDict [(''code'', PInt 5)]))) True
       (Opened 200 (Utf8 ''{...}'')) =
     Sent (Response 503 (PDict
         [(''status'', PStr ''degraded''),
          (''checks'', PDict
             [(''vroom_binary'', PStr ''ok''),
              (''osrm'', PStr ''down''),
              (''osrm_detail'', PInt 5)])]))
   \<and> handle_health (stub_world NotStarted (Inr (PList []))) True
       (Opened 200 (Utf8 ''[]'')) = Uncaught AttributeError"
  by (simp add: handle_health_def health_response_def check_osrm_def stub_world_def
      and_then_def dict_get_default_def)

text \<open>
  C6, amended. Whenever the probe ends in a way the health check reports (the upstream
  answers with a status other than 200, or with 200 and a body that is a JSON object
  or is not JSON at all, or the request raises \<^verbatim>\<open>HTTPError\<close>, \<^verbatim>\<open>URLError\<close> or
  \<^verbatim>\<open>TimeoutError\<close>), the health endpoint returns 200 with status \<^verbatim>\<open>ok\<close> if and
  only if the solver binary exists and the probe succeeded (200 with \<^verbatim>\<open>code\<close> the
  string \<^verbatim>\<open>"Ok"\<close>), and 503 with status \<^verbatim>\<open>degraded\<close> otherwise. In both cases
  \<^verbatim>\<open>checks\<close> reports \<^verbatim>\<open>vroom_binary\<close> as ok or missing, \<^verbatim>\<open>osrm\<close> as ok or
  down, and as \<^verbatim>\<open>osrm_detail\<close> the value \<^const>\<open>probe_detail\<close> gives: the
  upstream's \<^verbatim>\<open>code\<close> as it came, of any JSON type, or a text.
\<close>

theorem health_reports_readiness:
  assumes "probe_detail w probe = Some detail"
  shows "handle_health w vroom_exists probe =
     Sent (Response (if vroom_exists \<and> probe_ok w probe then 200 else 503)
       (PDict
         [(''status'', PStr (if vroom_exists \<and> probe_ok w probe then ''ok'' else ''degraded'')),
          (''checks'', PDict
             [(''vroom_binary'', PStr (if vroom_exists then ''ok'' else ''missing'')),
              (''osrm'', PStr (if probe_ok w probe then ''ok'' else ''down'')),
              (''osrm_detail'', detail)])]))"
  using check_osrm_detail[OF assms]
  by (auto simp: handle_health_def health_response_def)

theorem health_reports_readiness_witness:
  "probe_detail (stub_world NotStarted (Inr (PDict [(''code'', PStr ''Ok'')])))
       (Opened 200 (Utf8 ''{...}'')) = Some (PStr ''Ok'')
   \<and> handle_health (stub_world NotStarted (Inr (PDict [(''code'', PStr ''Ok'')]))) True
       (Opened 200 (Utf8 ''{...}'')) =
     Sent (Response 200 (PDict
         [(''status'', PStr ''ok''),
          (''checks'', PDict
             [(''vroom_binary'', PStr ''ok''),
              (''osrm'', PStr ''ok''),
              (''osrm_detail'', PStr ''Ok'')])]))
   \<and> handle_health (stub_world NotStarted (Inr (PDict [(''code'', PStr ''Ok'')]))) False
       (Opened 200 (Utf8 ''{...}'')) =
     Sent (Response 503 (PDict
         [(''status'', PStr ''degraded''),
          (''checks'', PDict
             [(''vroom_binary'', PStr ''missing''),
              (''osrm'', PStr ''ok''),
              (''osrm_detail'', PStr ''Ok'')])]))
   \<and> probe_detail (stub_world NotStarted (Inl [])) (Raised (URLError ''refused''))
       = Some (PStr ''refused'')
   \<and> handle_health (stub_world NotStarted (Inl [])) True (Raised (URLError ''refused'')) =
     Sent (Response 503 (PDict
         [(''status'', PStr ''degraded''),
          (''checks'', PDict
             [(''vroom_binary'', PStr ''ok''),
              (''osrm'', PStr ''down''),
              (''osrm_detail'', PStr ''refused'')])]))"
proof -
  have d: "probe_detail (stub_world NotStarted (Inr (PDict [(''code'', PStr ''Ok'')])))
       (Opened 200 (Utf8 ''{...}'')) = Some (PStr ''Ok'')"
    by (simp add: probe_detail_def stub_world_def dict_get_default_def)
  have ok: "probe_ok (stub_world NotStarted (Inr (PDict [(''code'', PStr ''Ok'')])))
       (Opened 200 (Utf8 ''{...}''))"
    by (simp add: probe_ok_def stub_world_def)
  have d': "probe_detail (stub_world NotStarted (Inl [])) (Raised (URLError ''refused''))
       = Some (PStr ''refused'')"
    by (simp add: probe_detail_def)
  have no: "\<not> probe_ok (stub_world NotStarted (Inl [])) (Raised (URLError ''refused''))"
    by (simp add: probe_ok_def)
  show ?thesis
    using health_reports_readiness[OF d, of True] health_reports_readiness[OF d, of False]
      health_reports_readiness[OF d', of True] d d' ok no
    by simp
qed


section \<open>The round trip of the external ids\<close>

lemma entity_external_id_dict:
  "entity_external_id repr prefix i (PDict e) =
     py_str repr (dict_get_default e ''id'' (PStr (prefix @ str_int i)))"
  by (simp add: entity_external_id_def dict_get_default_def py_str_def split: option.splits)

lemma build_vehicle_ext:
  assumes "build_vehicle repr dl idx v = Inr (ext, entry)"
  shows "ext = entity_external_id repr ''vehicle-'' idx v"
proof (cases v)
  case (PDict d)
  with assms have "ext = py_str repr (dict_get_default d ''id'' (PStr (''vehicle-'' @ str_int idx)))"
    by (cases "map_of d ''capacity''") (simp_all add: build_vehicle_def and_then_def)
  with PDict show ?thesis by (simp only: entity_external_id_dict)
qed (use assms in \<open>simp_all add: build_vehicle_def and_then_def\<close>)

lemma build_job_ext:
  assumes "build_job repr idx j = Inr (ext, entry)"
  shows "ext = entity_external_id repr ''job-'' idx j"
proof (cases j)
  case (PDict d)
  with assms have "ext = py_str repr (dict_get_default d ''id'' (PStr (''job-'' @ str_int idx)))"
    by (cases "map_of d ''location''") (simp_all add: build_job_def and_then_def)
  with PDict show ?thesis by (simp only: entity_external_id_dict)
qed (use assms in \<open>simp_all add: build_job_def and_then_def\<close>)

lemma nth_Cons_int:
  "idx < i \<Longrightarrow> (v # vs) ! nat (i - idx) = vs ! nat (i - (idx + 1))"
proof -
  assume "idx < i"
  then have "nat (i - idx) = Suc (nat (i - (idx + 1)))" by simp
  then show ?thesis by simp
qed

lemma build_vehicles_map:
  "build_vehicles repr dl idx vs acc m = Inr (out, m') \<Longrightarrow>
   m' i = (if idx \<le> i \<and> i < idx + int (length vs)
           then Some (entity_external_id repr ''vehicle-'' i (vs ! nat (i - idx)))
           else m i)"
proof (induction vs arbitrary: idx acc m)
  case Nil
  then show ?case by auto
next
  case (Cons v vs)
  from Cons.prems obtain ext entry where b: "build_vehicle repr dl idx v = Inr (ext, entry)"
    and r: "build_vehicles repr dl (idx + 1) vs (acc @ [entry]) (m(idx \<mapsto> ext)) = Inr (out, m')"
    by (auto split: sum.splits)
  note ih = Cons.IH[OF r]
  have e: "ext = entity_external_id repr ''vehicle-'' idx v"
    by (rule build_vehicle_ext[OF b])
  consider "i < idx" | "i = idx" | "idx < i" by linarith
  then show ?case
  proof cases
    case 1
    then show ?thesis using ih by simp
  next
    case 2
    then show ?thesis using ih e by simp
  next
    case 3
    then show ?thesis using ih nth_Cons_int[OF 3, of v vs] by auto
  qed
qed

lemma build_jobs_map:
  "build_jobs repr idx js acc m = Inr (out, m') \<Longrightarrow>
   m' i = (if idx \<le> i \<and> i < idx + int (length js)
           then Some (entity_external_id repr ''job-'' i (js ! nat (i - idx)))
           else m i)"
proof (induction js arbitrary: idx acc m)
  case Nil
  then show ?case by auto
next
  case (Cons j js)
  from Cons.prems obtain ext entry where b: "build_job repr idx j = Inr (ext, entry)"
    and r: "build_jobs repr (idx + 1) js (acc @ [entry]) (m(idx \<mapsto> ext)) = Inr (out, m')"
    by (auto split: sum.splits)
  note ih = Cons.IH[OF r]
  have e: "ext = entity_external_id repr ''job-'' idx j"
    by (rule build_job_ext[OF b])
  consider "i < idx" | "i = idx" | "idx < i" by linarith
  then show ?case
  proof cases
    case 1
    then show ?thesis using ih by simp
  next
    case 2
    then show ?thesis using ih e by simp
  next
    case 3
    then show ?thesis using ih nth_Cons_int[OF 3, of j js] by auto
  qed
qed

text \<open>The identity maps of an accepted payload.\<close>

lemma build_maps:
  assumes "validate_payload payload = []"
  shows "\<exists>req vm jm. build_vroom_request repr payload = Inr (req, vm, jm)
     \<and> (\<forall>i. vm i = (if 1 \<le> i \<and> i \<le> int (length (items payload ''vehicles''))
               then Some (external_id repr ''vehicle-'' (items payload ''vehicles'') i) else None))
     \<and> (\<forall>i. jm i = (if 1 \<le> i \<and> i \<le> int (length (items payload ''jobs''))
               then Some (external_id repr ''job-'' (items payload ''jobs'') i) else None))"
proof -
  from validate_payload_shape[OF assms] obtain p depot loc vs js where
    s: "payload = PDict p" "map_of p ''depot'' = Some (PDict depot)"
      "map_of depot ''location'' = Some loc"
      "map_of p ''vehicles'' = Some (PList vs)" "validate_vehicles 1 vs = []"
      "map_of p ''jobs'' = Some (PList js)" "validate_jobs 1 js = []"
    by blast
  obtain vout vm where v: "build_vehicles repr loc 1 vs [] Map.empty = Inr (vout, vm)"
    using build_vehicles_ok[OF s(5)] by blast
  obtain jout jm where j: "build_jobs repr 1 js [] Map.empty = Inr (jout, jm)"
    using build_jobs_ok[OF s(7)] by blast
  have b: "build_vroom_request repr payload =
      Inr (PDict [(''vehicles'', PList vout), (''jobs'', PList jout)], vm, jm)"
    using s v j by (simp add: build_vroom_request_def and_then_Inr)
  have iv: "items payload ''vehicles'' = vs" and ij: "items payload ''jobs'' = js"
    using s by (simp_all add: items_def)
  have "vm i = (if 1 \<le> i \<and> i \<le> int (length vs)
               then Some (external_id repr ''vehicle-'' vs i) else None)" for i
    using build_vehicles_map[OF v, of i] by (auto simp: external_id_def)
  moreover have "jm i = (if 1 \<le> i \<and> i \<le> int (length js)
               then Some (external_id repr ''job-'' js i) else None)" for i
    using build_jobs_map[OF j, of i] by (auto simp: external_id_def)
  ultimately show ?thesis
    using b iv ij by simp
qed

lemma field_dict_set:
  "field (PDict (dict_set d k v)) k' = (if k' = k then v else field (PDict d) k')"
  by (simp add: field_def dict_get_def map_of_dict_set)

lemma items_dict_set_list: "items (PDict (dict_set d k (PList ys))) k = ys"
  by (simp add: items_def map_of_dict_set)

lemma items_dict_set_other:
  "k' \<noteq> k \<Longrightarrow> items (PDict (dict_set d k v)) k' = items (PDict d) k'"
  by (simp add: items_def map_of_dict_set)

text \<open>A loop whose body returns on every element returns, element by element.\<close>

lemma for_each_all:
  assumes "list_all P xs" and "\<forall>x. P x \<longrightarrow> (\<exists>y. body x = Inr y \<and> Q x y)"
  shows "\<exists>ys. for_each body xs = Inr ys \<and> list_all2 Q xs ys"
  using assms(1)
proof (induction xs)
  case Nil
  then show ?case by simp
next
  case (Cons x xs)
  then obtain ys where ys: "for_each body xs = Inr ys" "list_all2 Q xs ys"
    by auto
  from Cons.prems assms(2) obtain y where y: "body x = Inr y" "Q x y"
    by auto
  from ys y show ?case by simp
qed

lemma for_each_in_list:
  assumes "map_of d k = Some (PList xs)" and "for_each body xs = Inr ys"
  shows "for_each_in d k body = Inr (dict_set d k (PList ys))"
  using assms by (simp add: for_each_in_def)

lemma for_each_in_none:
  "map_of d k = None \<Longrightarrow> for_each_in d k body = Inr d"
  by (simp add: for_each_in_def)

lemma annotate_hit:
  assumes "dict_get d src = PInt i" and "id_map i = Some ext"
  shows "annotate src dst id_map d = Inr (dict_set d dst (PStr ext))"
  using assms by (simp add: annotate_def)

lemma step_round_trip:
  assumes "step_ok m step" and "\<And>j. 1 \<le> j \<and> j \<le> m \<Longrightarrow> job_map j = Some (job_id j)"
  shows "\<exists>step'. annotate_step job_map step = Inr step' \<and> step_annotated job_id step step'"
proof -
  from assms(1) obtain d where d: "step = PDict d"
    by (cases step) (simp_all add: step_ok_def)
  show ?thesis
  proof (cases "map_of d ''job''")
    case None
    then have "annotate ''job'' ''job_external_id'' job_map d = Inr d"
      by (simp add: annotate_def dict_get_def)
    with d None show ?thesis
      by (simp add: annotate_step_def and_then_Inr step_annotated_def field_def dict_get_def)
  next
    case (Some v)
    with assms(1) d obtain j where j: "v = PInt j" "1 \<le> j" "j \<le> m"
      by (cases v) (simp_all add: step_ok_def index_in_def)
    from Some j have g: "dict_get d ''job'' = PInt j"
      by (simp add: dict_get_def)
    from annotate_hit[OF g assms(2)] j
    have "annotate ''job'' ''job_external_id'' job_map d =
        Inr (dict_set d ''job_external_id'' (PStr (job_id j)))"
      by simp
    with d g show ?thesis
      by (simp add: annotate_step_def and_then_Inr step_annotated_def field_dict_set)
        (simp add: field_def)
  qed
qed

lemma unassigned_round_trip:
  assumes "unassigned_ok m u" and "\<And>j. 1 \<le> j \<and> j \<le> m \<Longrightarrow> job_map j = Some (job_id j)"
  shows "\<exists>u'. annotate_unassigned job_map u = Inr u' \<and> unassigned_annotated job_id u u'"
proof -
  from assms(1) obtain d where d: "u = PDict d"
    by (cases u) (simp_all add: unassigned_ok_def)
  with assms(1) obtain j where j: "dict_get d ''id'' = PInt j" "1 \<le> j" "j \<le> m"
    by (cases "dict_get d ''id''") (simp_all add: unassigned_ok_def index_in_def)
  from annotate_hit[OF j(1) assms(2)] j
  have "annotate ''id'' ''job_external_id'' job_map d =
      Inr (dict_set d ''job_external_id'' (PStr (job_id j)))"
    by simp
  with d j show ?thesis
    by (simp add: annotate_unassigned_def and_then_Inr unassigned_annotated_def field_dict_set)
      (simp add: field_def)
qed

lemma route_round_trip:
  assumes "route_ok n m route"
    and vm: "\<And>i. 1 \<le> i \<and> i \<le> n \<Longrightarrow> vehicle_map i = Some (vehicle_id i)"
    and jm: "\<And>j. 1 \<le> j \<and> j \<le> m \<Longrightarrow> job_map j = Some (job_id j)"
  shows "\<exists>route'. annotate_route vehicle_map job_map route = Inr route'
     \<and> route_annotated vehicle_id job_id route route'"
proof -
  from assms(1) obtain d where d: "route = PDict d"
    by (cases route) (simp_all add: route_ok_def)
  with assms(1) obtain i where i: "dict_get d ''vehicle'' = PInt i" "1 \<le> i" "i \<le> n"
    by (cases "dict_get d ''vehicle''") (simp_all add: route_ok_def index_in_def)
  define d1 where "d1 = dict_set d ''vehicle_external_id'' (PStr (vehicle_id i))"
  from annotate_hit[OF i(1) vm] i
  have a: "annotate ''vehicle'' ''vehicle_external_id'' vehicle_map d = Inr d1"
    by (simp add: d1_def)
  have s1: "map_of d1 ''steps'' = map_of d ''steps''"
    by (simp add: d1_def map_of_dict_set)
  have v: "int_value (field route ''vehicle'') = i"
    using d i by (simp add: field_def)
  show ?thesis
  proof (cases "map_of d ''steps''")
    case None
    with s1 have "for_each_in d1 ''steps'' (annotate_step job_map) = Inr d1"
      by (simp add: for_each_in_none)
    with a d have "annotate_route vehicle_map job_map route = Inr (PDict d1)"
      by (simp add: annotate_route_def and_then_Inr)
    moreover have "route_annotated vehicle_id job_id route (PDict d1)"
      using None s1 d v
      by (simp add: route_annotated_def items_def) (simp add: d1_def field_dict_set)
    ultimately show ?thesis by blast
  next
    case (Some c)
    with assms(1) d obtain steps where c: "c = PList steps" and ok: "list_all (step_ok m) steps"
      by (cases c) (simp_all add: route_ok_def)
    have "\<exists>y. annotate_step job_map x = Inr y \<and> step_annotated job_id x y"
      if "step_ok m x" for x
      using that jm by (rule step_round_trip)
    then have st: "\<forall>x. step_ok m x \<longrightarrow>
        (\<exists>y. annotate_step job_map x = Inr y \<and> step_annotated job_id x y)"
      by blast
    from for_each_all[where P = "step_ok m" and body = "annotate_step job_map"
        and Q = "step_annotated job_id", OF ok st]
    obtain steps' where f: "for_each (annotate_step job_map) steps = Inr steps'"
      and l: "list_all2 (step_annotated job_id) steps steps'"
      by blast
    from Some c s1 have "map_of d1 ''steps'' = Some (PList steps)" by simp
    from for_each_in_list[OF this f] a d
    have "annotate_route vehicle_map job_map route =
        Inr (PDict (dict_set d1 ''steps'' (PList steps')))"
      by (simp add: annotate_route_def and_then_Inr)
    moreover have "items route ''steps'' = steps"
      using d Some c by (simp add: items_def)
    then have "route_annotated vehicle_id job_id route (PDict (dict_set d1 ''steps'' (PList steps')))"
      using l v
      by (simp add: route_annotated_def items_dict_set_list field_dict_set)
        (simp add: d1_def field_dict_set)
    ultimately show ?thesis by blast
  qed
qed

lemma solution_round_trip:
  assumes "references_assigned n m solution"
    and vm: "\<And>i. 1 \<le> i \<and> i \<le> n \<Longrightarrow> vehicle_map i = Some (vehicle_id i)"
    and jm: "\<And>j. 1 \<le> j \<and> j \<le> m \<Longrightarrow> job_map j = Some (job_id j)"
  shows "\<exists>annotated. add_external_ids solution vehicle_map job_map = Inr annotated
     \<and> solution_annotated vehicle_id job_id solution annotated"
proof -
  from assms(1) obtain s where s: "solution = PDict s"
    by (cases solution) (simp_all add: references_assigned_def)
  have "\<exists>s1 routes'. for_each_in s ''routes'' (annotate_route vehicle_map job_map) = Inr s1
      \<and> list_all2 (route_annotated vehicle_id job_id) (items solution ''routes'') routes'
      \<and> items (PDict s1) ''routes'' = routes'
      \<and> map_of s1 ''unassigned'' = map_of s ''unassigned''"
  proof (cases "map_of s ''routes''")
    case None
    then show ?thesis using s by (simp add: for_each_in_none items_def)
  next
    case (Some c)
    with assms(1) s obtain routes where c: "c = PList routes"
      and ok: "list_all (route_ok n m) routes"
      by (cases c) (simp_all add: references_assigned_def)
    have "\<exists>y. annotate_route vehicle_map job_map x = Inr y
        \<and> route_annotated vehicle_id job_id x y"
      if "route_ok n m x" for x
      using that vm jm by (rule route_round_trip)
    then have rt: "\<forall>x. route_ok n m x \<longrightarrow>
        (\<exists>y. annotate_route vehicle_map job_map x = Inr y
           \<and> route_annotated vehicle_id job_id x y)"
      by blast
    from for_each_all[where P = "route_ok n m" and body = "annotate_route vehicle_map job_map"
        and Q = "route_annotated vehicle_id job_id", OF ok rt]
    obtain routes' where f: "for_each (annotate_route vehicle_map job_map) routes = Inr routes'"
      and l: "list_all2 (route_annotated vehicle_id job_id) routes routes'"
      by blast
    from Some c have "map_of s ''routes'' = Some (PList routes)" by simp
    from for_each_in_list[OF this f] l s Some c show ?thesis
      by (simp add: items_dict_set_list map_of_dict_set) (simp add: items_def)
  qed
  then obtain s1 routes'
    where r: "for_each_in s ''routes'' (annotate_route vehicle_map job_map) = Inr s1"
      and rl: "list_all2 (route_annotated vehicle_id job_id) (items solution ''routes'') routes'"
      and ri: "items (PDict s1) ''routes'' = routes'"
      and ru: "map_of s1 ''unassigned'' = map_of s ''unassigned''"
    by blast
  have "\<exists>s2. for_each_in s1 ''unassigned'' (annotate_unassigned job_map) = Inr s2
      \<and> list_all2 (unassigned_annotated job_id)
            (items solution ''unassigned'') (items (PDict s2) ''unassigned'')
      \<and> items (PDict s2) ''routes'' = routes'"
  proof (cases "map_of s ''unassigned''")
    case None
    then show ?thesis using s ru ri by (simp add: for_each_in_none items_def)
  next
    case (Some c)
    with assms(1) s obtain us where c: "c = PList us"
      and ok: "list_all (unassigned_ok m) us"
      by (cases c) (simp_all add: references_assigned_def)
    have "\<exists>y. annotate_unassigned job_map x = Inr y \<and> unassigned_annotated job_id x y"
      if "unassigned_ok m x" for x
      using that jm by (rule unassigned_round_trip)
    then have ut: "\<forall>x. unassigned_ok m x \<longrightarrow>
        (\<exists>y. annotate_unassigned job_map x = Inr y \<and> unassigned_annotated job_id x y)"
      by blast
    from for_each_all[where P = "unassigned_ok m" and body = "annotate_unassigned job_map"
        and Q = "unassigned_annotated job_id", OF ok ut]
    obtain us' where f: "for_each (annotate_unassigned job_map) us = Inr us'"
      and l: "list_all2 (unassigned_annotated job_id) us us'"
      by blast
    from Some c ru have "map_of s1 ''unassigned'' = Some (PList us)" by simp
    from for_each_in_list[OF this f] l s Some c ri show ?thesis
      by (simp add: items_dict_set_list items_dict_set_other) (simp add: items_def)
  qed
  then obtain s2
    where u: "for_each_in s1 ''unassigned'' (annotate_unassigned job_map) = Inr s2"
      and ul: "list_all2 (unassigned_annotated job_id)
            (items solution ''unassigned'') (items (PDict s2) ''unassigned'')"
      and ui: "items (PDict s2) ''routes'' = routes'"
    by blast
  have "add_external_ids solution vehicle_map job_map = Inr (PDict s2)"
    using s r u by (simp add: add_external_ids_def and_then_Inr)
  moreover have "solution_annotated vehicle_id job_id solution (PDict s2)"
    using rl ul ui by (simp add: solution_annotated_def)
  ultimately show ?thesis by blast
qed

lemma str_int_2: "str_int 2 = ''2''"
  by code_simp

lemma str_int_7: "str_int 7 = ''7''"
  by code_simp

text \<open>
  C2, as stated, fails for an id that is not a string: the vehicle of
  \<^const>\<open>numeric_id_payload\<close> has the id 7 and its route is annotated with the string
  \<^verbatim>\<open>"7"\<close>; the job has the id null and its step is annotated with the string
  \<^verbatim>\<open>"None"\<close>, neither the value supplied nor the default \<^verbatim>\<open>"job-1"\<close>.
\<close>

theorem exact_external_id_counterexample:
  "validate_payload numeric_id_payload = []
   \<and> references_assigned 1 1 numeric_id_solution
   \<and> field (items numeric_id_payload ''vehicles'' ! 0) ''id'' = PInt 7
   \<and> field (items numeric_id_payload ''jobs'' ! 0) ''id'' = PNone
   \<and> (case build_vroom_request (\<lambda>v. []) numeric_id_payload of
         Inl e \<Rightarrow> Inl e
       | Inr (req, vehicle_map, job_map) \<Rightarrow>
           add_external_ids numeric_id_solution vehicle_map job_map) =
       Inr (PDict [(''routes'', PList [PDict
              [(''vehicle'', PInt 1),
               (''steps'', PList [PDict [(''job'', PInt 1),
                                         (''job_external_id'', PStr ''None'')]]),
               (''vehicle_external_id'', PStr ''7'')]])])
   \<and> PStr ''7'' \<noteq> PInt 7 \<and> PStr ''None'' \<noteq> PNone \<and> ''None'' \<noteq> ''job-1''"
proof -
  have "validate_payload numeric_id_payload = []"
    by (simp add: numeric_id_payload_def validate_depot_def validate_vehicles_field_def
        validate_jobs_field_def dict_get_def dict_has_def dict_get_default_def)
  moreover have "references_assigned 1 1 numeric_id_solution"
    by (simp add: numeric_id_solution_def references_assigned_def route_ok_def step_ok_def
        index_in_def dict_get_def)
  moreover have "field (items numeric_id_payload ''vehicles'' ! 0) ''id'' = PInt 7"
    and "field (items numeric_id_payload ''jobs'' ! 0) ''id'' = PNone"
    by (simp_all add: numeric_id_payload_def items_def field_def dict_get_def)
  moreover have "build_vroom_request (\<lambda>v. []) numeric_id_payload =
      Inr (PDict
         [(''vehicles'', PList [PDict
             [(''id'', PInt 1), (''capacity'', PList [PInt 10]),
              (''start'', PList [PInt 7, PInt 43]), (''end'', PList [PInt 7, PInt 43])]]),
          (''jobs'', PList [PDict
             [(''id'', PInt 1), (''location'', PList [PInt 8, PInt 44]),
              (''service'', PInt 300), (''delivery'', PList [PInt 1])]])],
        [1 \<mapsto> ''7''], [1 \<mapsto> ''None''])"
    by (simp add: numeric_id_payload_def build_vroom_request_def build_vehicle_def
        build_job_def and_then_def dict_get_default_def py_str_def str_int_7)
  moreover have "add_external_ids numeric_id_solution [1 \<mapsto> ''7''] [1 \<mapsto> ''None''] =
       Inr (PDict [(''routes'', PList [PDict
              [(''vehicle'', PInt 1),
               (''steps'', PList [PDict [(''job'', PInt 1),
                                         (''job_external_id'', PStr ''None'')]]),
               (''vehicle_external_id'', PStr ''7'')]])])"
    by (simp add: numeric_id_solution_def add_external_ids_def annotate_route_def
        annotate_step_def annotate_def and_then_def for_each_in_def dict_get_def)
  ultimately show ?thesis by simp
qed

text \<open>
  C2, amended. For every payload the validator accepts, the translation returns
  identity maps that send each index \<open>i\<close> from 1 to the number of vehicles (of jobs),
  in input order, to \<^verbatim>\<open>str\<close> of the value under \<^verbatim>\<open>id\<close> of the \<open>i\<close>-th vehicle
  (job), which is the id itself when it is a string, or to the default
  \<^verbatim>\<open>"vehicle-<i>"\<close> (\<^verbatim>\<open>"job-<i>"\<close>) when the entity has no key \<^verbatim>\<open>id\<close>, and
  send no other index anywhere. Reconciling a solution that references the assigned
  indices then returns, and annotates every route, every step that names a job and
  every unassigned entry with the external id of its index; a step that names no job
  is left as it was.
\<close>

theorem round_trip_external_ids:
  assumes "validate_payload payload = []"
    and "references_assigned (int (length (items payload ''vehicles'')))
           (int (length (items payload ''jobs''))) solution"
  shows "\<exists>req vehicle_map job_map annotated.
      build_vroom_request repr payload = Inr (req, vehicle_map, job_map)
      \<and> (\<forall>i. vehicle_map i =
            (if 1 \<le> i \<and> i \<le> int (length (items payload ''vehicles''))
             then Some (external_id repr ''vehicle-'' (items payload ''vehicles'') i)
             else None))
      \<and> (\<forall>i. job_map i =
            (if 1 \<le> i \<and> i \<le> int (length (items payload ''jobs''))
             then Some (external_id repr ''job-'' (items payload ''jobs'') i)
             else None))
      \<and> add_external_ids solution vehicle_map job_map = Inr annotated
      \<and> solution_annotated (external_id repr ''vehicle-'' (items payload ''vehicles''))
           (external_id repr ''job-'' (items payload ''jobs'')) solution annotated
      \<and> py_str repr (PStr s) = s"
proof -
  from build_maps[OF assms(1), of repr] obtain req vm jm
    where b: "build_vroom_request repr payload = Inr (req, vm, jm)"
      and v: "\<forall>i. vm i = (if 1 \<le> i \<and> i \<le> int (length (items payload ''vehicles''))
               then Some (external_id repr ''vehicle-'' (items payload ''vehicles'') i)
               else None)"
      and j: "\<forall>i. jm i = (if 1 \<le> i \<and> i \<le> int (length (items payload ''jobs''))
               then Some (external_id repr ''job-'' (items payload ''jobs'') i) else None)"
    by blast
  have "\<exists>annotated. add_external_ids solution vm jm = Inr annotated
      \<and> solution_annotated (external_id repr ''vehicle-'' (items payload ''vehicles''))
           (external_id repr ''job-'' (items payload ''jobs'')) solution annotated"
    by (rule solution_round_trip[OF assms(2)]) (simp_all add: v j)
  with b v j show ?thesis
    by (auto simp: py_str_def)
qed

theorem round_trip_external_ids_witness:
  "validate_payload named_payload = []
   \<and> references_assigned (int (length (items named_payload ''vehicles'')))
        (int (length (items named_payload ''jobs''))) named_solution
   \<and> (\<exists>req vehicle_map job_map.
        build_vroom_request (\<lambda>v. []) named_payload = Inr (req, vehicle_map, job_map)
        \<and> vehicle_map 1 = Some ''van-A'' \<and> vehicle_map 2 = Some ''vehicle-2''
        \<and> job_map 1 = Some ''parcel-9'' \<and> job_map 2 = Some ''job-2''
        \<and> add_external_ids named_solution vehicle_map job_map = Inr named_annotated
        \<and> solution_annotated (external_id (\<lambda>v. []) ''vehicle-'' (items named_payload ''vehicles''))
             (external_id (\<lambda>v. []) ''job-'' (items named_payload ''jobs''))
             named_solution named_annotated)"
proof -
  have v: "validate_payload named_payload = []"
    by (simp add: named_payload_def validate_depot_def validate_vehicles_field_def
        validate_jobs_field_def dict_get_def dict_has_def dict_get_default_def)
  have r: "references_assigned (int (length (items named_payload ''vehicles'')))
        (int (length (items named_payload ''jobs''))) named_solution"
    by (simp add: named_payload_def items_def named_solution_def references_assigned_def
        route_ok_def step_ok_def unassigned_ok_def index_in_def dict_get_def)
  from round_trip_external_ids[OF v r, of "\<lambda>v. []"] obtain req vm jm annotated
    where b: "build_vroom_request (\<lambda>v. []) named_payload = Inr (req, vm, jm)"
      and a: "add_external_ids named_solution vm jm = Inr annotated"
      and s: "solution_annotated (external_id (\<lambda>v. []) ''vehicle-'' (items named_payload ''vehicles''))
             (external_id (\<lambda>v. []) ''job-'' (items named_payload ''jobs''))
             named_solution annotated"
    by blast
  have "build_vroom_request (\<lambda>v. []) named_payload =
      Inr (PDict
         [(''vehicles'', PList
            [PDict [(''id'', PInt 1), (''capacity'', PList [PInt 10]),
                    (''start'', PList [PInt 7, PInt 43]), (''end'', PList [PInt 7, PInt 43])],
             PDict [(''id'', PInt 2), (''capacity'', PList [PInt 5]),
                    (''start'', PList [PInt 7, PInt 43]), (''end'', PList [PInt 7, PInt 43])]]),
          (''jobs'', PList
            [PDict [(''id'', PInt 1), (''location'', PList [PInt 8, PInt 44]),
                    (''service'', PInt 300), (''delivery'', PList [PInt 1])],
             PDict [(''id'', PInt 2), (''location'', PList [PInt 8, PInt 45]),
                    (''service'', PInt 300), (''delivery'', PList [PInt 1])]])],
        [1 \<mapsto> ''van-A'', 2 \<mapsto> ''vehicle-2''], [1 \<mapsto> ''parcel-9'', 2 \<mapsto> ''job-2''])"
    by (simp add: named_payload_def build_vroom_request_def build_vehicle_def
        build_job_def and_then_def dict_get_default_def py_str_def str_int_2)
  with b have vm: "vm = [1 \<mapsto> ''van-A'', 2 \<mapsto> ''vehicle-2'']"
    and jm: "jm = [1 \<mapsto> ''parcel-9'', 2 \<mapsto> ''job-2'']"
    by simp_all
  have "add_external_ids named_solution [1 \<mapsto> ''van-A'', 2 \<mapsto> ''vehicle-2'']
      [1 \<mapsto> ''parcel-9'', 2 \<mapsto> ''job-2''] = Inr named_annotated"
    by (simp add: named_solution_def named_annotated_def add_external_ids_def
        annotate_route_def annotate_unassigned_def annotate_step_def annotate_def
        and_then_def for_each_in_def dict_get_def)
  with a vm jm have "annotated = named_annotated" by simp
  with b a s vm jm v r show ?thesis
    by auto
qed

end
